theory Spec2Isabelle
  imports Complex_Main "HOL-Library.Word"
begin

section \<open>Arrays\<close>

text \<open>
  The arrays the transforms and alignments receive are numpy arrays of at most two
  dimensions: a 0-d scalar, a 1-d vector, or a 2-d matrix with its shape and its buffer
  in row-major (C) order. Elements are real numbers: the rounding of float64 is not
  part of the model.
\<close>

datatype error =
  ValueError | IndexError | KeyError | AssertionError | AlignmentError | BufferError

datatype ndarray =
    Arr0 real
  | Arr1 "real list"
  | Arr2 nat nat "real list"

text \<open>A 2-d array of shape \<open>(r, c)\<close> owns a buffer of \<open>r * c\<close> elements.\<close>

fun wf :: "ndarray \<Rightarrow> bool" where
  "wf (Arr0 v) = True"
| "wf (Arr1 xs) = True"
| "wf (Arr2 r c d) = (length d = r * c)"

fun shape :: "ndarray \<Rightarrow> nat list" where
  "shape (Arr0 v) = []"
| "shape (Arr1 xs) = [length xs]"
| "shape (Arr2 r c d) = [r, c]"

fun ndim :: "ndarray \<Rightarrow> nat" where
  "ndim (Arr0 v) = 0"
| "ndim (Arr1 xs) = 1"
| "ndim (Arr2 r c d) = 2"

text \<open>\<open>array.size\<close>: the number of elements.\<close>

fun size_nd :: "ndarray \<Rightarrow> nat" where
  "size_nd (Arr0 v) = 1"
| "size_nd (Arr1 xs) = length xs"
| "size_nd (Arr2 r c d) = r * c"

text \<open>The buffer of an array, in C order.\<close>

fun flat :: "ndarray \<Rightarrow> real list" where
  "flat (Arr0 v) = [v]"
| "flat (Arr1 xs) = xs"
| "flat (Arr2 r c d) = d"

text \<open>\<open>entry a i j\<close> is \<open>a[i, j]\<close> (a vector is read as one row, a scalar everywhere).\<close>

fun entry :: "ndarray \<Rightarrow> nat \<Rightarrow> nat \<Rightarrow> real" where
  "entry (Arr2 r c d) i j = d ! (i * c + j)"
| "entry (Arr1 xs) i j = xs ! j"
| "entry (Arr0 v) i j = v"

text \<open>
  \<open>tab2 r c f\<close> is the row-major buffer of the \<open>r\<close> by \<open>c\<close> matrix whose entry
  \<open>(i, j)\<close> is \<open>f i j\<close>; \<open>dsum n f\<close> is \<open>f 0 + ... + f (n - 1)\<close>.
\<close>

definition tab2 :: "nat \<Rightarrow> nat \<Rightarrow> (nat \<Rightarrow> nat \<Rightarrow> real) \<Rightarrow> real list" where
  "tab2 r c f = map (\<lambda>p. f (p div c) (p mod c)) [0..<r * c]"

definition dsum :: "nat \<Rightarrow> (nat \<Rightarrow> real) \<Rightarrow> real" where
  "dsum n f = sum_list (map f [0..<n])"

subsection \<open>Broadcasting\<close>

text \<open>
  numpy's rule for one axis of \<open>x + y\<close>: equal lengths stay, a length of 1 stretches
  to the other, anything else is a ValueError. \<open>bidx\<close> reads a stretched axis at 0.
\<close>

definition bdim :: "nat \<Rightarrow> nat \<Rightarrow> nat option" where
  "bdim a b = (if a = b then Some a else if a = 1 then Some b
               else if b = 1 then Some a else None)"

definition bidx :: "nat \<Rightarrow> nat \<Rightarrow> nat" where
  "bidx a i = (if a = 1 then 0 else i)"

text \<open>An operand of fewer dimensions gets axes of length 1 on the left.\<close>

fun as2 :: "ndarray \<Rightarrow> nat \<times> nat \<times> real list" where
  "as2 (Arr0 v) = (1, 1, [v])"
| "as2 (Arr1 xs) = (1, length xs, xs)"
| "as2 (Arr2 r c d) = (r, c, d)"

definition of_nd :: "nat \<Rightarrow> nat \<Rightarrow> nat \<Rightarrow> real list \<Rightarrow> ndarray" where
  "of_nd k r c d = (if k = 0 then Arr0 (d ! 0) else if k = 1 then Arr1 d else Arr2 r c d)"

text \<open>\<open>x + y\<close> on arrays.\<close>

definition np_add :: "ndarray \<Rightarrow> ndarray \<Rightarrow> error + ndarray" where
  "np_add a b =
     (case as2 a of (r1, c1, d1) \<Rightarrow>
      case as2 b of (r2, c2, d2) \<Rightarrow>
      (case bdim r1 r2 of
         None \<Rightarrow> Inl ValueError
       | Some r \<Rightarrow>
          (case bdim c1 c2 of
             None \<Rightarrow> Inl ValueError
           | Some c \<Rightarrow>
               Inr (of_nd (max (ndim a) (ndim b)) r c
                     (tab2 r c (\<lambda>i j. d1 ! (bidx r1 i * c1 + bidx c1 j)
                                    + d2 ! (bidx r2 i * c2 + bidx c2 j)))))))"

text \<open>
  \<open>np.dot\<close>: a scalar operand multiplies; two vectors give their inner product; a
  matrix with a vector sums over the matrix's last axis; two matrices give the matrix
  product. Mismatched lengths are a ValueError.
\<close>

fun np_dot :: "ndarray \<Rightarrow> ndarray \<Rightarrow> error + ndarray" where
  "np_dot (Arr0 a) (Arr0 b) = Inr (Arr0 (a * b))"
| "np_dot (Arr0 a) (Arr1 ys) = Inr (Arr1 (map (\<lambda>y. a * y) ys))"
| "np_dot (Arr0 a) (Arr2 r c d) = Inr (Arr2 r c (map (\<lambda>y. a * y) d))"
| "np_dot (Arr1 xs) (Arr0 b) = Inr (Arr1 (map (\<lambda>x. x * b) xs))"
| "np_dot (Arr2 r c d) (Arr0 b) = Inr (Arr2 r c (map (\<lambda>x. x * b) d))"
| "np_dot (Arr1 xs) (Arr1 ys) =
     (if length xs = length ys
      then Inr (Arr0 (dsum (length xs) (\<lambda>k. xs ! k * ys ! k)))
      else Inl ValueError)"
| "np_dot (Arr1 xs) (Arr2 r c d) =
     (if length xs = r
      then Inr (Arr1 (map (\<lambda>j. dsum r (\<lambda>k. xs ! k * d ! (k * c + j))) [0..<c]))
      else Inl ValueError)"
| "np_dot (Arr2 r c d) (Arr1 ys) =
     (if c = length ys
      then Inr (Arr1 (map (\<lambda>i. dsum c (\<lambda>k. d ! (i * c + k) * ys ! k)) [0..<r]))
      else Inl ValueError)"
| "np_dot (Arr2 r1 c1 d1) (Arr2 r2 c2 d2) =
     (if c1 = r2
      then Inr (Arr2 r1 c2
             (tab2 r1 c2 (\<lambda>i j. dsum c1 (\<lambda>k. d1 ! (i * c1 + k) * d2 ! (k * c2 + j)))))
      else Inl ValueError)"

text \<open>\<open>np.eye(m)\<close>: the \<open>m\<close> by \<open>m\<close> identity.\<close>

definition np_eye :: "nat \<Rightarrow> ndarray" where
  "np_eye m = Arr2 m m (tab2 m m (\<lambda>i j. if i = j then 1 else 0))"

subsection \<open>Slices\<close>

text \<open>
  \<open>a[:-1, :-1]\<close> drops the last row and the last column of a matrix (an empty axis
  stays empty); \<open>a[-1, :-1]\<close> is the last row without its last entry and fails on a
  matrix with no row. Both need two axes: a scalar or a vector raises IndexError.
\<close>

fun slice_block :: "ndarray \<Rightarrow> error + ndarray" where
  "slice_block (Arr2 r c d) =
     Inr (Arr2 (r - 1) (c - 1) (tab2 (r - 1) (c - 1) (\<lambda>i j. d ! (i * c + j))))"
| "slice_block a = Inl IndexError"

fun slice_last_row :: "ndarray \<Rightarrow> error + ndarray" where
  "slice_last_row (Arr2 r c d) =
     (if r = 0 then Inl IndexError
      else Inr (Arr1 (map (\<lambda>j. d ! ((r - 1) * c + j)) [0..<c - 1])))"
| "slice_last_row a = Inl IndexError"

text \<open>
  Assignment to a slice broadcasts the value to the slice's shape: each axis of the
  value has the slice's length or length 1, and a leading axis of length 1 beyond the
  slice's dimensions is dropped. \<open>bcast2 v R C\<close> is the value \<open>v\<close> seen as an \<open>R\<close> by
  \<open>C\<close> matrix, \<open>bcast1 v C\<close> as a vector of length \<open>C\<close>.
\<close>

fun bcast2 :: "ndarray \<Rightarrow> nat \<Rightarrow> nat \<Rightarrow> error + (nat \<Rightarrow> nat \<Rightarrow> real)" where
  "bcast2 (Arr0 v) R C = Inr (\<lambda>i j. v)"
| "bcast2 (Arr1 xs) R C =
     (if length xs = C \<or> length xs = 1
      then Inr (\<lambda>i j. xs ! bidx (length xs) j) else Inl ValueError)"
| "bcast2 (Arr2 r c d) R C =
     (if (r = R \<or> r = 1) \<and> (c = C \<or> c = 1)
      then Inr (\<lambda>i j. d ! (bidx r i * c + bidx c j)) else Inl ValueError)"

fun bcast1 :: "ndarray \<Rightarrow> nat \<Rightarrow> error + (nat \<Rightarrow> real)" where
  "bcast1 (Arr0 v) C = Inr (\<lambda>j. v)"
| "bcast1 (Arr1 xs) C =
     (if length xs = C \<or> length xs = 1
      then Inr (\<lambda>j. xs ! bidx (length xs) j) else Inl ValueError)"
| "bcast1 (Arr2 r c d) C =
     (if r = 1 \<and> (c = C \<or> c = 1)
      then Inr (\<lambda>j. d ! bidx c j) else Inl ValueError)"

text \<open>\<open>a[:-1, :-1] = v\<close> and \<open>a[-1, :-1] = v\<close> on a matrix \<open>a\<close>.\<close>

fun set_block :: "ndarray \<Rightarrow> ndarray \<Rightarrow> error + ndarray" where
  "set_block (Arr2 r c d) v =
     (case bcast2 v (r - 1) (c - 1) of
        Inl e \<Rightarrow> Inl e
      | Inr f \<Rightarrow>
          Inr (Arr2 r c (tab2 r c (\<lambda>i j. if i < r - 1 \<and> j < c - 1 then f i j
                                         else d ! (i * c + j)))))"
| "set_block a v = Inl IndexError"

fun set_last_row :: "ndarray \<Rightarrow> ndarray \<Rightarrow> error + ndarray" where
  "set_last_row (Arr2 r c d) v =
     (if r = 0 then Inl IndexError
      else case bcast1 v (c - 1) of
        Inl e \<Rightarrow> Inl e
      | Inr f \<Rightarrow>
          Inr (Arr2 r c (tab2 r c (\<lambda>i j. if i = r - 1 \<and> j < c - 1 then f j
                                         else d ! (i * c + j)))))"
| "set_last_row a v = Inl IndexError"

section \<open>Affine transformations\<close>

record AffineTransformation =
  homogeneous_matrix :: ndarray

definition linear_transformation :: "AffineTransformation \<Rightarrow> error + ndarray" where
  "linear_transformation T = slice_block (homogeneous_matrix T)"

definition translation :: "AffineTransformation \<Rightarrow> error + ndarray" where
  "translation T = slice_last_row (homogeneous_matrix T)"

text \<open>
  \<open>apply\<close>: \<open>np.dot(self.linear_transformation, x + self.translation)\<close>. The two
  properties are read first, then the sum is taken, then the product.
\<close>

definition apply_affine :: "AffineTransformation \<Rightarrow> ndarray \<Rightarrow> error + ndarray" where
  "apply_affine T x =
     (case linear_transformation T of
        Inl e \<Rightarrow> Inl e
      | Inr l \<Rightarrow>
         (case translation T of
            Inl e \<Rightarrow> Inl e
          | Inr t \<Rightarrow>
             (case np_add x t of
                Inl e \<Rightarrow> Inl e
              | Inr s \<Rightarrow> np_dot l s)))"

text \<open>\<open>chain\<close>: a new transformation on the product of the two matrices.\<close>

definition chain :: "AffineTransformation \<Rightarrow> AffineTransformation \<Rightarrow> error + AffineTransformation" where
  "chain self x =
     (case np_dot (homogeneous_matrix self) (homogeneous_matrix x) of
        Inl e \<Rightarrow> Inl e
      | Inr m \<Rightarrow> Inr \<lparr>homogeneous_matrix = m\<rparr>)"

text \<open>
  Objects live in a heap and a call receives references: \<open>chain_call\<close> is the method
  call \<open>h[self].chain(h[x])\<close>, which allocates the transformation it returns.
\<close>

type_synonym heap = "AffineTransformation list"

definition chain_call :: "heap \<Rightarrow> nat \<Rightarrow> nat \<Rightarrow> error + (heap \<times> nat)" where
  "chain_call h self x =
     (case chain (h ! self) (h ! x) of
        Inl e \<Rightarrow> Inl e
      | Inr t \<Rightarrow> Inr (h @ [t], length h))"

text \<open>
  \<open>Translation(transformation)\<close>: the identity of size \<open>transformation.size + 1\<close>
  with the leading entries of its last row overwritten.
\<close>

definition Translation :: "ndarray \<Rightarrow> error + AffineTransformation" where
  "Translation transformation =
     (case set_last_row (np_eye (size_nd transformation + 1)) transformation of
        Inl e \<Rightarrow> Inl e
      | Inr m \<Rightarrow> Inr \<lparr>homogeneous_matrix = m\<rparr>)"

text \<open>
  \<open>Rotation(rotation)\<close>: the identity of size \<open>rotation.shape[0] + 1\<close> with its
  top-left block overwritten. A scalar has no \<open>shape[0]\<close>.
\<close>

definition Rotation :: "ndarray \<Rightarrow> error + AffineTransformation" where
  "Rotation rotation =
     (case shape rotation of
        [] \<Rightarrow> Inl IndexError
      | n # _ \<Rightarrow>
         (case set_block (np_eye (n + 1)) rotation of
            Inl e \<Rightarrow> Inl e
          | Inr m \<Rightarrow> Inr \<lparr>homogeneous_matrix = m\<rparr>))"

section \<open>Alignment of one source\<close>

record Alignment =
  source :: ndarray
  aligned_source :: ndarray
  n_landmarks :: nat
  n_dim :: nat
  target :: ndarray

text \<open>
  \<open>Alignment.__init__\<close>. Unpacking \<open>source.shape\<close> into two names raises a
  ValueError unless the shape has two entries, and the handler turns it into an
  AlignmentError. The statement \<open>assert self.n_dim, self.n_landmarks == target.shape\<close>
  tests \<open>self.n_dim\<close> alone: what follows the comma is the message of the assertion.
\<close>

definition Alignment_init :: "ndarray \<Rightarrow> ndarray \<Rightarrow> error + Alignment" where
  "Alignment_init src tgt =
     (case shape src of
        [l, d] \<Rightarrow>
          (if d = 0 then Inl AssertionError
           else Inr \<lparr>source = src, aligned_source = src, n_landmarks = l, n_dim = d,
                     target = tgt\<rparr>)
      | _ \<Rightarrow> Inl AlignmentError)"

section \<open>Alignment of many sources\<close>

text \<open>
  The stacked sources are a 3-d array of shape \<open>(L, D, N)\<close>: entry \<open>(a, b, k)\<close> of
  \<open>Arr3 L D N d\<close> is \<open>d ! ((a * D + b) * N + k)\<close>.
\<close>

datatype ndarray3 = Arr3 nat nat nat "real list"

definition tab3 :: "nat \<Rightarrow> nat \<Rightarrow> nat \<Rightarrow> (nat \<Rightarrow> nat \<Rightarrow> nat \<Rightarrow> real) \<Rightarrow> real list" where
  "tab3 L D N g = map (\<lambda>p. g (p div N div D) (p div N mod D) (p mod N)) [0..<L * D * N]"

definition np_zeros3 :: "nat \<Rightarrow> nat \<Rightarrow> nat \<Rightarrow> ndarray3" where
  "np_zeros3 L D N = Arr3 L D N (replicate (L * D * N) 0)"

text \<open>\<open>t[:, :, i] = v\<close>, \<open>t[..., i]\<close> and \<open>t.mean(2)\<close>.\<close>

fun set_slice3 :: "ndarray3 \<Rightarrow> nat \<Rightarrow> ndarray \<Rightarrow> error + ndarray3" where
  "set_slice3 (Arr3 L D N d) i v =
     (if N \<le> i then Inl IndexError
      else case bcast2 v L D of
        Inl e \<Rightarrow> Inl e
      | Inr f \<Rightarrow>
          Inr (Arr3 L D N (tab3 L D N (\<lambda>a b k. if k = i then f a b
                                              else d ! ((a * D + b) * N + k)))))"

fun slice_last_axis :: "ndarray3 \<Rightarrow> nat \<Rightarrow> error + ndarray" where
  "slice_last_axis (Arr3 L D N d) i =
     (if N \<le> i then Inl IndexError
      else Inr (Arr2 L D (tab2 L D (\<lambda>a b. d ! ((a * D + b) * N + i)))))"

fun mean_axis2 :: "ndarray3 \<Rightarrow> ndarray" where
  "mean_axis2 (Arr3 L D N d) =
     Arr2 L D (tab2 L D (\<lambda>a b. dsum N (\<lambda>k. d ! ((a * D + b) * N + k)) / real N))"

text \<open>
  \<open>a[..., np.newaxis]\<close> appends an axis of length 1 and keeps the buffer, so the
  stored target has up to three dimensions.
\<close>

datatype stored = UpTo2 ndarray | Three ndarray3

fun newaxis :: "ndarray \<Rightarrow> stored" where
  "newaxis (Arr0 v) = UpTo2 (Arr1 [v])"
| "newaxis (Arr1 xs) = UpTo2 (Arr2 (length xs) 1 xs)"
| "newaxis (Arr2 r c d) = Three (Arr3 r c 1 d)"

text \<open>
  An array as the alignment of many sources receives it. \<open>elems\<close> are its elements,
  which assignment into the stacked array reads. \<open>view_bytes\<close> is what
  \<open>array.view(np.uint8)\<close> hands to hashlib: the bytes of the buffer in memory order, or
  the error raised on the way when there is no such view (a 0-d array of another item
  size gives ValueError, as does a last axis that is not contiguous; a view that is not
  C-contiguous is refused by hashlib). The bytes depend on the dtype and on the bit
  patterns, not on the shape: the elements \<open>0.0\<close> and \<open>-0.0\<close> are equal and their
  bytes differ, so the bytes are data of the array and no function of its elements.
\<close>

type_synonym byte = "8 word"

record array_obj =
  elems :: ndarray
  view_bytes :: "error + byte list"

text \<open>
  \<open>_numpy_hash\<close>: \<open>hashlib.sha1(array.view(np.uint8)).hexdigest()\<close>. The digest
  function of hashlib is a parameter \<open>sha1\<close> from bytes to digests.
\<close>

definition numpy_hash :: "(byte list \<Rightarrow> 'h) \<Rightarrow> array_obj \<Rightarrow> error + 'h" where
  "numpy_hash sha1 array =
     (case view_bytes array of
        Inl e \<Rightarrow> Inl e
      | Inr b \<Rightarrow> Inr (sha1 b))"

record 'h ParallelAlignment =
  lookup :: "'h \<rightharpoonup> nat"
  sources :: ndarray3
  aligned_sources :: ndarray3
  target :: stored

text \<open>The argument \<open>sources\<close> is one array or a list of arrays.\<close>

datatype sources_arg = Single array_obj | Many "array_obj list"

text \<open>
  The loop \<open>for i, source in enumerate(sources)\<close>, from index \<open>i\<close> on, over the
  stacked array and the lookup. Its assertion tests \<open>n_dim\<close> alone.
\<close>

fun add_sources ::
  "(byte list \<Rightarrow> 'h) \<Rightarrow> nat \<Rightarrow> nat \<Rightarrow> array_obj list \<Rightarrow> ndarray3 \<times> ('h \<rightharpoonup> nat)
     \<Rightarrow> error + ndarray3 \<times> ('h \<rightharpoonup> nat)" where
  "add_sources sha1 nd i [] st = Inr st"
| "add_sources sha1 nd i (s # rest) (t, lk) =
     (if nd = 0 then Inl AssertionError
      else case set_slice3 t i (elems s) of
        Inl e \<Rightarrow> Inl e
      | Inr t' \<Rightarrow>
         (case numpy_hash sha1 s of
            Inl e \<Rightarrow> Inl e
          | Inr h \<Rightarrow> add_sources sha1 nd (Suc i) rest (t', lk(h \<mapsto> i))))"

definition ParallelAlignment_init ::
  "(byte list \<Rightarrow> 'h) \<Rightarrow> sources_arg \<Rightarrow> ndarray option \<Rightarrow> error + 'h ParallelAlignment" where
  "ParallelAlignment_init sha1 srcs tgt =
     (let l = (case srcs of Single a \<Rightarrow> [a] | Many xs \<Rightarrow> xs) in
      case l of
        [] \<Rightarrow> Inl IndexError
      | s0 # _ \<Rightarrow>
         (case shape (elems s0) of
            [nl, nd] \<Rightarrow>
              (case add_sources sha1 nd 0 l (np_zeros3 nl nd (length l), Map.empty) of
                 Inl e \<Rightarrow> Inl e
               | Inr (t, lk) \<Rightarrow>
                  (case tgt of
                     None \<Rightarrow>
                       Inr \<lparr>lookup = lk, sources = t, aligned_sources = t,
                            target = newaxis (mean_axis2 t)\<rparr>
                   | Some g \<Rightarrow>
                       (if nd = 0 then Inl AssertionError
                        else Inr \<lparr>lookup = lk, sources = t, aligned_sources = t,
                                  target = newaxis g\<rparr>)))
          | _ \<Rightarrow> Inl IndexError))"

fun shape3 :: "ndarray3 \<Rightarrow> nat \<times> nat \<times> nat" where
  "shape3 (Arr3 L D N d) = (L, D, N)"

definition n_landmarks :: "'h ParallelAlignment \<Rightarrow> nat" where
  "n_landmarks pa = fst (shape3 (sources pa))"

definition n_dimensions :: "'h ParallelAlignment \<Rightarrow> nat" where
  "n_dimensions pa = fst (snd (shape3 (sources pa)))"

definition n_sources :: "'h ParallelAlignment \<Rightarrow> nat" where
  "n_sources pa = snd (snd (shape3 (sources pa)))"

definition aligned_version_of_source ::
  "(byte list \<Rightarrow> 'h) \<Rightarrow> 'h ParallelAlignment \<Rightarrow> array_obj \<Rightarrow> error + ndarray" where
  "aligned_version_of_source sha1 pa src =
     (case numpy_hash sha1 src of
        Inl e \<Rightarrow> Inl e
      | Inr h \<Rightarrow>
         (case lookup pa h of
            None \<Rightarrow> Inl KeyError
          | Some i \<Rightarrow> slice_last_axis (aligned_sources pa) i))"

section \<open>Facts about buffers\<close>

lemma length_tab2 [simp]: "length (tab2 r c f) = r * c"
  by (simp add: tab2_def)

lemma idx2_less: "i < r \<Longrightarrow> j < c \<Longrightarrow> i * c + j < r * (c::nat)"
proof -
  assume a: "i < r" "j < c"
  have "i * c + j < i * c + c" using a by simp
  also have "\<dots> = Suc i * c" by simp
  also have "\<dots> \<le> r * c" using a by (intro mult_le_mono1) simp
  finally show ?thesis .
qed

lemma tab2_nth: "i < r \<Longrightarrow> j < c \<Longrightarrow> tab2 r c f ! (i * c + j) = f i j"
  by (simp add: tab2_def idx2_less)

lemma tab2_cong: "(\<And>i j. i < r \<Longrightarrow> j < c \<Longrightarrow> f i j = g i j) \<Longrightarrow> tab2 r c f = tab2 r c g"
proof -
  assume eq: "\<And>i j. i < r \<Longrightarrow> j < c \<Longrightarrow> f i j = g i j"
  have "f (p div c) (p mod c) = g (p div c) (p mod c)" if p: "p < r * c" for p
  proof -
    have "0 < c" using p by (cases c) auto
    moreover have "p div c < r" using p by (rule less_mult_imp_div_less)
    ultimately show ?thesis by (intro eq) auto
  qed
  then show ?thesis by (simp add: tab2_def)
qed

lemma tab2_id: "length d = r * c \<Longrightarrow> tab2 r c (\<lambda>i j. d ! (i * c + j)) = d"
  unfolding tab2_def
  by (rule nth_equalityI) (auto simp: mult.commute)

lemma dsum_cong: "(\<And>k. k < n \<Longrightarrow> f k = g k) \<Longrightarrow> dsum n f = dsum n g"
  unfolding dsum_def by (rule arg_cong[where f=sum_list]) simp

lemma dsum_delta: "i < n \<Longrightarrow> dsum n (\<lambda>k. (if i = k then 1 else 0) * g k) = g i"
  unfolding dsum_def
  by (simp add: interv_sum_list_conv_sum_set_nat if_distrib[of "\<lambda>x. x * _"] sum.delta'
      cong: if_cong)

lemma bidx_less [simp]: "i < a \<Longrightarrow> bidx a i = i"
  by (auto simp: bidx_def)

lemma bdim_same [simp]: "bdim a a = Some a"
  by (simp add: bdim_def)

lemma tab2_one_row: "tab2 (Suc 0) c f = map (f 0) [0..<c]"
  by (simp add: tab2_def)

lemma bdim_one_right [simp]: "bdim a (Suc 0) = Some a"
  by (simp add: bdim_def)

lemma bdim_one_left [simp]: "bdim (Suc 0) b = Some b"
  by (simp add: bdim_def)

lemma bidx_one [simp]: "bidx (Suc 0) i = 0"
  by (simp add: bidx_def)

lemma np_add_vec:
  "length xs = length t \<Longrightarrow> np_add (Arr1 xs) (Arr1 t) = Inr (Arr1 (map2 (+) xs t))"
  by (auto simp: np_add_def of_nd_def tab2_one_row intro!: nth_equalityI)

lemma np_add_wf: "np_add a b = Inr s \<Longrightarrow> wf s"
  by (auto simp: np_add_def of_nd_def split: prod.splits option.splits if_splits)

lemma np_add_Arr1_ndim: "np_add a (Arr1 t) = Inr s \<Longrightarrow> ndim s \<noteq> 0"
  by (cases a) (auto simp: np_add_def of_nd_def split: prod.splits option.splits if_splits)

lemma np_dot_eye:
  assumes "wf s" and "ndim s \<noteq> 0"
  shows "np_dot (Arr2 n n (tab2 n n (\<lambda>i j. if i = j then 1 else 0))) s =
         (if take 1 (shape s) = [n] then Inr s else Inl ValueError)"
proof (cases s)
  case (Arr0 v)
  then show ?thesis using assms by simp
next
  case (Arr1 v)
  have "map (\<lambda>i. dsum n (\<lambda>k. tab2 n n (\<lambda>i j. if i = j then 1 else 0) ! (i * n + k) * v ! k)) [0..<n] = v"
    if len: "n = length v"
  proof (rule nth_equalityI)
    show "length (map (\<lambda>i. dsum n (\<lambda>k. tab2 n n (\<lambda>i j. if i = j then 1 else 0) ! (i * n + k) * v ! k)) [0..<n]) = length v"
      using len by simp
  next
    fix i assume "i < length (map (\<lambda>i. dsum n (\<lambda>k. tab2 n n (\<lambda>i j. if i = j then 1 else 0) ! (i * n + k) * v ! k)) [0..<n])"
    then have i: "i < n" by simp
    have "dsum n (\<lambda>k. tab2 n n (\<lambda>i j. if i = j then 1 else 0) ! (i * n + k) * v ! k)
        = dsum n (\<lambda>k. (if i = k then 1 else 0) * v ! k)"
      by (rule dsum_cong) (simp add: tab2_nth i)
    also have "\<dots> = v ! i" using i by (rule dsum_delta)
    finally show "map (\<lambda>i. dsum n (\<lambda>k. tab2 n n (\<lambda>i j. if i = j then 1 else 0) ! (i * n + k) * v ! k)) [0..<n] ! i = v ! i"
      using i by simp
  qed
  then show ?thesis using Arr1 by auto
next
  case (Arr2 r c d)
  have len: "length d = r * c" using assms Arr2 by simp
  have "tab2 n c (\<lambda>i j. dsum n (\<lambda>k. tab2 n n (\<lambda>i j. if i = j then 1 else 0) ! (i * n + k) * d ! (k * c + j))) = d"
    if rn: "n = r"
  proof -
    have "tab2 n c (\<lambda>i j. dsum n (\<lambda>k. tab2 n n (\<lambda>i j. if i = j then 1 else 0) ! (i * n + k) * d ! (k * c + j)))
        = tab2 n c (\<lambda>i j. d ! (i * c + j))"
    proof (rule tab2_cong)
      fix i j assume i: "i < n" and "j < c"
      have "dsum n (\<lambda>k. tab2 n n (\<lambda>i j. if i = j then 1 else 0) ! (i * n + k) * d ! (k * c + j))
          = dsum n (\<lambda>k. (if i = k then 1 else 0) * d ! (k * c + j))"
        by (rule dsum_cong) (simp add: tab2_nth i)
      also have "\<dots> = d ! (i * c + j)" using i by (rule dsum_delta)
      finally show "dsum n (\<lambda>k. tab2 n n (\<lambda>i j. if i = j then 1 else 0) ! (i * n + k) * d ! (k * c + j)) = d ! (i * c + j)" .
    qed
    then show ?thesis using len rn by (simp add: tab2_id)
  qed
  then show ?thesis using Arr2 by auto
qed

lemma entry_Arr2: "entry (Arr2 r c d) = (\<lambda>i j. d ! (i * c + j))"
  by (intro ext) simp

lemma length_tab3 [simp]: "length (tab3 L D N g) = L * D * N"
  by (simp add: tab3_def)

lemma idx3_less: "a < L \<Longrightarrow> b < D \<Longrightarrow> k < N \<Longrightarrow> (a * D + b) * N + k < L * D * (N::nat)"
  by (intro idx2_less) auto

lemma tab3_nth:
  "a < L \<Longrightarrow> b < D \<Longrightarrow> k < N \<Longrightarrow> tab3 L D N g ! ((a * D + b) * N + k) = g a b k"
  by (simp add: tab3_def idx3_less)

lemma tab3_cong:
  assumes "\<And>a b k. a < L \<Longrightarrow> b < D \<Longrightarrow> k < N \<Longrightarrow> f a b k = g a b k"
  shows "tab3 L D N f = tab3 L D N g"
proof -
  have "f (p div N div D) (p div N mod D) (p mod N) = g (p div N div D) (p div N mod D) (p mod N)"
    if p: "p < L * D * N" for p
  proof -
    have N: "0 < N" using p by (cases N) auto
    have q: "p div N < L * D" using p by (rule less_mult_imp_div_less)
    then have D: "0 < D" by (cases D) auto
    have "p div N div D < L" using q by (rule less_mult_imp_div_less)
    then show ?thesis using N D by (intro assms) auto
  qed
  then show ?thesis by (simp add: tab3_def)
qed

lemma tab3_id: "length d = L * D * N \<Longrightarrow> tab3 L D N (\<lambda>a b k. d ! ((a * D + b) * N + k)) = d"
  unfolding tab3_def
  by (rule nth_equalityI) (auto simp: mult.commute)

section \<open>The rotation factory\<close>

text \<open>
  Claim C8. For every 2-d square matrix \<open>R\<close> of shape \<open>(n, n)\<close>, \<open>Rotation(R)\<close> is
  built without error and its \<open>linear_transformation\<close> is exactly \<open>R\<close>: the block
  written by the factory is the block the property reads back.
\<close>

theorem Rotation_linear_transformation:
  assumes "wf R" and "shape R = [n, n]"
  shows "\<exists>T. Rotation R = Inr T \<and> linear_transformation T = Inr R"
proof -
  obtain d where R: "R = Arr2 n n d" and len: "length d = n * n"
    using assms by (cases R) auto
  have blk: "tab2 n n (\<lambda>i j. tab2 (Suc n) (Suc n)
                 (\<lambda>i j. if i < n \<and> j < n then d ! (bidx n i * n + bidx n j)
                        else e i j) ! (i * Suc n + j)) = d" for e
  proof -
    have "tab2 n n (\<lambda>i j. tab2 (Suc n) (Suc n)
                 (\<lambda>i j. if i < n \<and> j < n then d ! (bidx n i * n + bidx n j)
                        else e i j) ! (i * Suc n + j)) = tab2 n n (\<lambda>i j. d ! (i * n + j))"
      by (rule tab2_cong) (simp add: tab2_nth del: mult_Suc_right)
    then show ?thesis using len by (simp add: tab2_id)
  qed
  show ?thesis
    unfolding R
    by (simp add: Rotation_def np_eye_def linear_transformation_def blk del: mult_Suc_right)
qed

theorem Rotation_linear_transformation_witness:
  "wf (Arr2 2 2 [0, -1, 1, 0]) \<and> shape (Arr2 2 2 [0, -1, 1, 0]) = [2, 2] \<and>
   (\<exists>T. Rotation (Arr2 2 2 [0, -1, 1, 0]) = Inr T \<and>
        linear_transformation T = Inr (Arr2 2 2 [0, -1, 1, 0]))"
  using Rotation_linear_transformation [of "Arr2 2 2 [0, -1, 1, 0]" 2] by simp

section \<open>Applying a transformation\<close>

text \<open>
  Claim C1. For a transformation whose homogeneous matrix \<open>M\<close> has shape
  \<open>(n + 1, n + 1)\<close> and every array \<open>x\<close>, \<open>apply(x)\<close> is the top-left \<open>n\<close> by \<open>n\<close>
  block of \<open>M\<close> multiplied (\<open>np.dot\<close>) with \<open>x + t\<close>, where \<open>t\<close> holds the first \<open>n\<close>
  entries of the last row of \<open>M\<close> (row \<open>n\<close>, not column \<open>n\<close>); an error of the sum or
  of the product is the error of \<open>apply\<close>. For a vector \<open>x\<close> of length \<open>n\<close> the result
  has entries \<open>sum_k M[i, k] * (x[k] + M[n, k])\<close>, and for an \<open>n\<close> by \<open>n\<close> matrix \<open>x\<close>
  entries \<open>sum_k M[i, k] * (x[k, j] + M[n, j])\<close>.
\<close>

theorem apply_affine_formula:
  fixes n :: nat and d :: "real list"
  shows
  "(\<forall>x. apply_affine \<lparr>homogeneous_matrix = Arr2 (n + 1) (n + 1) d\<rparr> x =
      (case np_add x (Arr1 (map (\<lambda>j. entry (Arr2 (n + 1) (n + 1) d) n j) [0..<n])) of
         Inl e \<Rightarrow> Inl e
       | Inr s \<Rightarrow> np_dot (Arr2 n n (tab2 n n (entry (Arr2 (n + 1) (n + 1) d)))) s)) \<and>
   (\<forall>xs. length xs = n \<longrightarrow>
      apply_affine \<lparr>homogeneous_matrix = Arr2 (n + 1) (n + 1) d\<rparr> (Arr1 xs) =
        Inr (Arr1 (map (\<lambda>i. dsum n (\<lambda>k. entry (Arr2 (n + 1) (n + 1) d) i k *
                         (xs ! k + entry (Arr2 (n + 1) (n + 1) d) n k))) [0..<n]))) \<and>
   (\<forall>e. length e = n * n \<longrightarrow>
      apply_affine \<lparr>homogeneous_matrix = Arr2 (n + 1) (n + 1) d\<rparr> (Arr2 n n e) =
        Inr (Arr2 n n (tab2 n n (\<lambda>i j. dsum n (\<lambda>k. entry (Arr2 (n + 1) (n + 1) d) i k *
                         (e ! (k * n + j) + entry (Arr2 (n + 1) (n + 1) d) n j))))))"
proof (intro conjI allI impI)
  fix x
  show "apply_affine \<lparr>homogeneous_matrix = Arr2 (n + 1) (n + 1) d\<rparr> x =
      (case np_add x (Arr1 (map (\<lambda>j. entry (Arr2 (n + 1) (n + 1) d) n j) [0..<n])) of
         Inl e \<Rightarrow> Inl e
       | Inr s \<Rightarrow> np_dot (Arr2 n n (tab2 n n (entry (Arr2 (n + 1) (n + 1) d)))) s)"
    unfolding entry_Arr2
    by (simp add: apply_affine_def linear_transformation_def translation_def
        del: mult_Suc_right cong: sum.case_cong)
next
  fix xs :: "real list" assume len: "length xs = n"
  show "apply_affine \<lparr>homogeneous_matrix = Arr2 (n + 1) (n + 1) d\<rparr> (Arr1 xs) =
        Inr (Arr1 (map (\<lambda>i. dsum n (\<lambda>k. entry (Arr2 (n + 1) (n + 1) d) i k *
                         (xs ! k + entry (Arr2 (n + 1) (n + 1) d) n k))) [0..<n]))"
    using len
    apply (simp add: apply_affine_def linear_transformation_def translation_def np_add_vec
        del: mult_Suc_right)
    apply (intro ballI dsum_cong)
    apply (simp add: tab2_nth del: mult_Suc_right)
    done
next
  fix e :: "real list" assume len: "length e = n * n"
  show "apply_affine \<lparr>homogeneous_matrix = Arr2 (n + 1) (n + 1) d\<rparr> (Arr2 n n e) =
        Inr (Arr2 n n (tab2 n n (\<lambda>i j. dsum n (\<lambda>k. entry (Arr2 (n + 1) (n + 1) d) i k *
                         (e ! (k * n + j) + entry (Arr2 (n + 1) (n + 1) d) n j)))))"
    apply (simp add: apply_affine_def linear_transformation_def translation_def np_add_def
        of_nd_def del: mult_Suc_right)
    apply (intro tab2_cong dsum_cong)
    apply (simp add: tab2_nth del: mult_Suc_right)
    done
qed

theorem apply_affine_formula_witness:
  "length [1, 1 :: real] = 2 \<and>
   apply_affine \<lparr>homogeneous_matrix = Arr2 3 3 [1, 2, 0, 3, 4, 0, 10, 20, 1]\<rparr> (Arr1 [1, 1]) =
     Inr (Arr1 [53, 117])"
  using apply_affine_formula [of 2 "[1, 2, 0, 3, 4, 0, 10, 20, 1]", THEN conjunct2,
      THEN conjunct1, rule_format, of "[1, 1]"]
  by (simp add: dsum_def upt_rec)

section \<open>Chaining transformations\<close>

text \<open>
  Claim C2. For transformations \<open>A = h[self]\<close> and \<open>B = h[x]\<close> of the heap, whenever
  the product \<open>np.dot(A.homogeneous_matrix, B.homogeneous_matrix)\<close> is defined,
  \<open>A.chain(B)\<close> returns a newly allocated transformation whose matrix is that product,
  and every object that was in the heap, \<open>A\<close> and \<open>B\<close> among them, is unchanged. For two
  \<open>m\<close> by \<open>m\<close> matrices the product has entries \<open>sum_k A[i, k] * B[k, j]\<close>.
\<close>

theorem chain_call_product:
  assumes "self < length h" and "x < length h"
  shows
  "(\<forall>p. np_dot (homogeneous_matrix (h ! self)) (homogeneous_matrix (h ! x)) = Inr p \<longrightarrow>
      (\<exists>h' r. chain_call h self x = Inr (h', r) \<and> r = length h \<and>
         homogeneous_matrix (h' ! r) = p \<and>
         h' ! self = h ! self \<and> h' ! x = h ! x \<and> take (length h) h' = h)) \<and>
   (\<forall>m a b. homogeneous_matrix (h ! self) = Arr2 m m a \<and>
            homogeneous_matrix (h ! x) = Arr2 m m b \<longrightarrow>
      np_dot (homogeneous_matrix (h ! self)) (homogeneous_matrix (h ! x)) =
        Inr (Arr2 m m (tab2 m m (\<lambda>i j. dsum m (\<lambda>k. a ! (i * m + k) * b ! (k * m + j))))))"
  using assms by (auto simp: chain_call_def chain_def nth_append)


theorem chain_call_product_witness:
  "(0::nat) < length [\<lparr>homogeneous_matrix = Arr2 2 2 [1, 2, 0, 1]\<rparr>,
                     \<lparr>homogeneous_matrix = Arr2 2 2 [1, 0, 3, 1]\<rparr>] \<and>
   (1::nat) < length [\<lparr>homogeneous_matrix = Arr2 2 2 [1, 2, 0, 1]\<rparr>,
                     \<lparr>homogeneous_matrix = Arr2 2 2 [1, 0, 3, 1]\<rparr>] \<and>
   chain_call [\<lparr>homogeneous_matrix = Arr2 2 2 [1, 2, 0, 1]\<rparr>,
               \<lparr>homogeneous_matrix = Arr2 2 2 [1, 0, 3, 1]\<rparr>] 0 1 =
     Inr ([\<lparr>homogeneous_matrix = Arr2 2 2 [1, 2, 0, 1]\<rparr>,
           \<lparr>homogeneous_matrix = Arr2 2 2 [1, 0, 3, 1]\<rparr>,
           \<lparr>homogeneous_matrix = Arr2 2 2 [7, 2, 3, 1]\<rparr>], 2)"
  using chain_call_product [of 0 "[\<lparr>homogeneous_matrix = Arr2 2 2 [1, 2, 0, 1]\<rparr>,
               \<lparr>homogeneous_matrix = Arr2 2 2 [1, 0, 3, 1]\<rparr>]" 1]
  by (simp add: chain_call_def chain_def tab2_def dsum_def upt_rec)


section \<open>The translation factory\<close>

lemma Translation_matrix:
  "Translation (Arr1 t) = Inr \<lparr>homogeneous_matrix =
      Arr2 (Suc (length t)) (Suc (length t))
        (tab2 (Suc (length t)) (Suc (length t))
           (\<lambda>i j. if i = length t \<and> j < length t then t ! bidx (length t) j
                  else tab2 (Suc (length t)) (Suc (length t)) (\<lambda>i j. if i = j then 1 else 0)
                        ! (i * Suc (length t) + j)))\<rparr>"
  by (simp add: Translation_def np_eye_def del: mult_Suc_right)

lemma Translation_linear:
  "Translation (Arr1 t) = Inr T \<Longrightarrow>
   linear_transformation T = Inr (Arr2 (length t) (length t)
      (tab2 (length t) (length t) (\<lambda>i j. if i = j then 1 else 0)))"
proof -
  assume "Translation (Arr1 t) = Inr T"
  then have T: "T = \<lparr>homogeneous_matrix =
      Arr2 (Suc (length t)) (Suc (length t))
        (tab2 (Suc (length t)) (Suc (length t))
           (\<lambda>i j. if i = length t \<and> j < length t then t ! bidx (length t) j
                  else tab2 (Suc (length t)) (Suc (length t)) (\<lambda>i j. if i = j then 1 else 0)
                        ! (i * Suc (length t) + j)))\<rparr>"
    by (simp add: Translation_matrix)
  show ?thesis unfolding T linear_transformation_def
    apply (simp del: mult_Suc_right)
    apply (rule tab2_cong)
    apply (simp add: tab2_nth del: mult_Suc_right)
    done
qed

lemma Translation_translation:
  "Translation (Arr1 t) = Inr T \<Longrightarrow> translation T = Inr (Arr1 t)"
proof -
  assume "Translation (Arr1 t) = Inr T"
  then have T: "T = \<lparr>homogeneous_matrix =
      Arr2 (Suc (length t)) (Suc (length t))
        (tab2 (Suc (length t)) (Suc (length t))
           (\<lambda>i j. if i = length t \<and> j < length t then t ! bidx (length t) j
                  else tab2 (Suc (length t)) (Suc (length t)) (\<lambda>i j. if i = j then 1 else 0)
                        ! (i * Suc (length t) + j)))\<rparr>"
    by (simp add: Translation_matrix)
  show ?thesis unfolding T translation_def
    apply (simp del: mult_Suc_right)
    apply (rule nth_equalityI)
     apply (simp_all add: tab2_nth del: mult_Suc_right)
    done
qed

lemma np_add_rows:
  "length t = n \<Longrightarrow>
   np_add (Arr2 n n e) (Arr1 t) = Inr (Arr2 n n (tab2 n n (\<lambda>i j. e ! (i * n + j) + t ! j)))"
  by (auto simp: np_add_def of_nd_def intro!: tab2_cong)

text \<open>
  Claim C3. For every vector \<open>t\<close>, \<open>Translation(t)\<close> is built without error, and for
  every array \<open>x\<close> the result of \<open>Translation(t).apply(x)\<close> is \<open>x + t\<close> (numpy's
  broadcasting sum) whenever that sum is defined and its first axis has the length of
  \<open>t\<close>, which is what the product with the identity block needs; otherwise it is the
  ValueError of the sum or of the product. In particular a vector \<open>x\<close> of the length of
  \<open>t\<close> gives the entrywise sum, and a square matrix \<open>x\<close> gets \<open>t\<close> added to each row.
\<close>

theorem Translation_apply:
  "\<exists>T. Translation (Arr1 t) = Inr T \<and>
     (\<forall>x. apply_affine T x =
         (case np_add x (Arr1 t) of
            Inl e \<Rightarrow> Inl e
          | Inr s \<Rightarrow> if take 1 (shape s) = [length t] then Inr s else Inl ValueError)) \<and>
     (\<forall>xs. length xs = length t \<longrightarrow>
         apply_affine T (Arr1 xs) = Inr (Arr1 (map2 (+) xs t))) \<and>
     (\<forall>e. apply_affine T (Arr2 (length t) (length t) e) =
         Inr (Arr2 (length t) (length t)
               (tab2 (length t) (length t) (\<lambda>i j. e ! (i * length t + j) + t ! j))))"
proof -
  obtain T where T: "Translation (Arr1 t) = Inr T"
    by (simp add: Translation_matrix)
  have gen: "apply_affine T x =
         (case np_add x (Arr1 t) of
            Inl e \<Rightarrow> Inl e
          | Inr s \<Rightarrow> if take 1 (shape s) = [length t] then Inr s else Inl ValueError)" for x
    using Translation_linear[OF T] Translation_translation[OF T]
    by (auto simp: apply_affine_def np_dot_eye np_add_wf np_add_Arr1_ndim split: sum.splits)
  have vec: "apply_affine T (Arr1 xs) = Inr (Arr1 (map2 (+) xs t))"
    if "length xs = length t" for xs
    using that by (simp add: gen np_add_vec)
  have mat: "apply_affine T (Arr2 (length t) (length t) e) =
         Inr (Arr2 (length t) (length t)
               (tab2 (length t) (length t) (\<lambda>i j. e ! (i * length t + j) + t ! j)))" for e
    by (simp add: gen np_add_rows)
  show ?thesis using T gen vec mat by blast
qed

theorem Translation_apply_witness:
  "\<exists>T. Translation (Arr1 [10, 20]) = Inr T \<and>
       apply_affine T (Arr1 [1, 2]) = Inr (Arr1 [11, 22]) \<and>
       apply_affine T (Arr2 2 2 [1, 2, 3, 4]) = Inr (Arr2 2 2 [11, 22, 13, 24])"
proof -
  obtain T where T: "Translation (Arr1 [10, 20]) = Inr T"
    and vec: "\<forall>xs. length xs = length [10, 20 :: real] \<longrightarrow>
         apply_affine T (Arr1 xs) = Inr (Arr1 (map2 (+) xs [10, 20]))"
    and mat: "\<forall>e. apply_affine T (Arr2 (length [10, 20 :: real]) (length [10, 20 :: real]) e) =
         Inr (Arr2 (length [10, 20 :: real]) (length [10, 20 :: real])
               (tab2 (length [10, 20 :: real]) (length [10, 20 :: real])
                  (\<lambda>i j. e ! (i * length [10, 20 :: real] + j) + [10, 20] ! j)))"
    using Translation_apply [of "[10, 20]"] by blast
  have "apply_affine T (Arr1 [1, 2]) = Inr (Arr1 [11, 22])"
    using vec[rule_format, of "[1, 2]"] by simp
  moreover have len: "length [10, 20 :: real] = 2" by simp
  have "apply_affine T (Arr2 2 2 [1, 2, 3, 4]) = Inr (Arr2 2 2 [11, 22, 13, 24])"
    using mat[unfolded len, rule_format, of "[1, 2, 3, 4]"] by (simp add: tab2_def upt_rec)
  ultimately show ?thesis using T by blast
qed

section \<open>Constructing an alignment of one source\<close>

text \<open>
  Claim C7. A source that is not 2-d (its shape does not unpack into two numbers, as
  with shape \<open>(5,)\<close>) makes the constructor raise AlignmentError, whatever the target.
\<close>

theorem Alignment_init_not_2d:
  "length (shape src) \<noteq> 2 \<Longrightarrow> Alignment_init src tgt = Inl AlignmentError"
  by (cases src) (simp_all add: Alignment_init_def)

theorem Alignment_init_not_2d_witness:
  "length (shape (Arr1 [1, 2, 3, 4, 5])) \<noteq> 2 \<and>
   Alignment_init (Arr1 [1, 2, 3, 4, 5]) (Arr1 [1, 2, 3, 4, 5]) = Inl AlignmentError"
  using Alignment_init_not_2d [of "Arr1 [1, 2, 3, 4, 5]" "Arr1 [1, 2, 3, 4, 5]"]
  by simp

text \<open>A 2-d source with \<open>n_dim\<close> not 0 is accepted with any target.\<close>

lemma Alignment_init_accepts:
  "shape src = [l, d] \<Longrightarrow> d \<noteq> 0 \<Longrightarrow>
   Alignment_init src tgt =
     Inr \<lparr>source = src, aligned_source = src, Alignment.n_landmarks = l, n_dim = d,
          Alignment.target = tgt\<rparr>"
  by (simp add: Alignment_init_def)

text \<open>
  Claim C6. The claim is that a target whose shape differs from the 2-d source's makes
  the constructor fail. The source \<open>[[1, 2]]\<close> of shape \<open>(1, 2)\<close> with the target
  \<open>[[1, 2, 3]]\<close> of shape \<open>(1, 3)\<close> is accepted: the assertion tests \<open>n_dim\<close> only.
\<close>

theorem Alignment_init_shape_mismatch:
  "Alignment_init (Arr2 1 2 [1, 2]) (Arr2 1 3 [1, 2, 3]) =
     Inr \<lparr>source = Arr2 1 2 [1, 2], aligned_source = Arr2 1 2 [1, 2],
          Alignment.n_landmarks = 1, n_dim = 2, Alignment.target = Arr2 1 3 [1, 2, 3]\<rparr> \<and>
   shape (Arr2 1 2 [1, 2]) \<noteq> shape (Arr2 1 3 [1, 2, 3])"
  by (simp add: Alignment_init_def)

section \<open>Constructing an alignment of many sources\<close>

lemma shape_Arr2D: "shape s = [L, D] \<Longrightarrow> \<exists>e. s = Arr2 L D e"
  by (cases s) auto

lemma numpy_hash_bytes: "view_bytes s = Inr b \<Longrightarrow> numpy_hash sha1 s = Inr (sha1 b)"
  by (simp add: numpy_hash_def)

lemma numpy_hash_same: "view_bytes q = view_bytes s \<Longrightarrow> numpy_hash sha1 q = numpy_hash sha1 s"
  by (simp add: numpy_hash_def)

lemma add_sources_run:
  assumes "\<forall>s\<in>set ss. shape (elems s) = [L, D] \<and> (\<exists>b. view_bytes s = Inr b)"
    and "nd \<noteq> 0" and "i + length ss \<le> N" and "length d = L * D * N"
  shows "\<exists>lk'. add_sources sha1 nd i ss (Arr3 L D N d, lk) =
           Inr (Arr3 L D N (tab3 L D N (\<lambda>a b k. if i \<le> k \<and> k < i + length ss
                      then flat (elems (ss ! (k - i))) ! (a * D + b)
                      else d ! ((a * D + b) * N + k))), lk') \<and>
         (\<forall>h. (\<forall>j<length ss. numpy_hash sha1 (ss ! j) \<noteq> Inr h) \<longrightarrow> lk' h = lk h) \<and>
         (\<forall>j<length ss. (\<forall>k. j < k \<and> k < length ss \<longrightarrow>
                numpy_hash sha1 (ss ! k) \<noteq> numpy_hash sha1 (ss ! j)) \<longrightarrow>
             (\<forall>h. numpy_hash sha1 (ss ! j) = Inr h \<longrightarrow> lk' h = Some (i + j)))"
  using assms
proof (induction ss arbitrary: i d lk)
  case Nil
  have eq: "(\<lambda>a b k. if i \<le> k \<and> k < i
                 then flat (elems (([] :: array_obj list) ! (k - i))) ! (a * D + b)
                 else d ! ((a * D + b) * N + k))
        = (\<lambda>a b k. d ! ((a * D + b) * N + k))"
    by (intro ext) auto
  have "tab3 L D N (\<lambda>a b k. if i \<le> k \<and> k < i
                 then flat (elems (([] :: array_obj list) ! (k - i))) ! (a * D + b)
                 else d ! ((a * D + b) * N + k)) = d"
    unfolding eq using Nil.prems(4) by (rule tab3_id)
  then show ?case by simp
next
  case (Cons s rest)
  have "shape (elems s) = [L, D]" using Cons.prems(1) by simp
  then obtain e where s: "elems s = Arr2 L D e"
    using shape_Arr2D by blast
  obtain b where b: "view_bytes s = Inr b" using Cons.prems(1) by auto
  have hs: "numpy_hash sha1 s = Inr (sha1 b)" using b by (rule numpy_hash_bytes)
  define d1 where "d1 = tab3 L D N (\<lambda>a b k. if k = i then e ! (bidx L a * D + bidx D b)
                                          else d ! ((a * D + b) * N + k))"
  have iN: "i < N" using Cons.prems(3) by simp
  have step: "add_sources sha1 nd i (s # rest) (Arr3 L D N d, lk) =
              add_sources sha1 nd (Suc i) rest (Arr3 L D N d1, lk(sha1 b \<mapsto> i))"
    using iN Cons.prems(2) by (simp add: s hs d1_def)
  have "\<exists>lk'. add_sources sha1 nd (Suc i) rest (Arr3 L D N d1, lk(sha1 b \<mapsto> i)) =
           Inr (Arr3 L D N (tab3 L D N (\<lambda>a b k. if Suc i \<le> k \<and> k < Suc i + length rest
                      then flat (elems (rest ! (k - Suc i))) ! (a * D + b)
                      else d1 ! ((a * D + b) * N + k))), lk') \<and>
         (\<forall>h. (\<forall>j<length rest. numpy_hash sha1 (rest ! j) \<noteq> Inr h) \<longrightarrow>
              lk' h = (lk(sha1 b \<mapsto> i)) h) \<and>
         (\<forall>j<length rest. (\<forall>k. j < k \<and> k < length rest \<longrightarrow>
                numpy_hash sha1 (rest ! k) \<noteq> numpy_hash sha1 (rest ! j)) \<longrightarrow>
             (\<forall>h. numpy_hash sha1 (rest ! j) = Inr h \<longrightarrow> lk' h = Some (Suc i + j)))"
    using Cons.prems by (intro Cons.IH) (auto simp: d1_def)
  then obtain lk' where
    run: "add_sources sha1 nd (Suc i) rest (Arr3 L D N d1, lk(sha1 b \<mapsto> i)) =
           Inr (Arr3 L D N (tab3 L D N (\<lambda>a b k. if Suc i \<le> k \<and> k < Suc i + length rest
                      then flat (elems (rest ! (k - Suc i))) ! (a * D + b)
                      else d1 ! ((a * D + b) * N + k))), lk')"
    and miss: "\<And>h. (\<forall>j<length rest. numpy_hash sha1 (rest ! j) \<noteq> Inr h) \<Longrightarrow>
                 lk' h = (lk(sha1 b \<mapsto> i)) h"
    and hit: "\<And>j h. j < length rest \<Longrightarrow> (\<forall>k. j < k \<and> k < length rest \<longrightarrow>
                numpy_hash sha1 (rest ! k) \<noteq> numpy_hash sha1 (rest ! j)) \<Longrightarrow>
             numpy_hash sha1 (rest ! j) = Inr h \<Longrightarrow> lk' h = Some (Suc i + j)"
    by blast
  have buf: "tab3 L D N (\<lambda>a b k. if Suc i \<le> k \<and> k < Suc i + length rest
                      then flat (elems (rest ! (k - Suc i))) ! (a * D + b)
                      else d1 ! ((a * D + b) * N + k)) =
             tab3 L D N (\<lambda>a b k. if i \<le> k \<and> k < i + length (s # rest)
                      then flat (elems ((s # rest) ! (k - i))) ! (a * D + b)
                      else d ! ((a * D + b) * N + k))"
  proof (rule tab3_cong)
    fix a b k assume abk: "a < L" "b < D" "k < N"
    consider "k = i" | "i < k" | "k < i" by linarith
    then show "(if Suc i \<le> k \<and> k < Suc i + length rest
                then flat (elems (rest ! (k - Suc i))) ! (a * D + b)
                else d1 ! ((a * D + b) * N + k)) =
               (if i \<le> k \<and> k < i + length (s # rest)
                then flat (elems ((s # rest) ! (k - i))) ! (a * D + b)
                else d ! ((a * D + b) * N + k))"
    proof cases
      case 1
      then show ?thesis using abk by (simp add: d1_def tab3_nth s)
    next
      case 2
      then have "(s # rest) ! (k - i) = rest ! (k - Suc i)"
        by (simp add: nth_Cons')
      then show ?thesis using 2 abk by (auto simp: d1_def tab3_nth)
    next
      case 3
      then show ?thesis using abk by (simp add: d1_def tab3_nth)
    qed
  qed
  have miss': "lk' h = lk h"
    if h: "\<forall>j<length (s # rest). numpy_hash sha1 ((s # rest) ! j) \<noteq> Inr h" for h
  proof -
    have "sha1 b \<noteq> h" using h[rule_format, of 0] by (simp add: hs)
    moreover have "\<forall>j<length rest. numpy_hash sha1 (rest ! j) \<noteq> Inr h"
    proof (intro allI impI)
      fix j assume "j < length rest"
      then show "numpy_hash sha1 (rest ! j) \<noteq> Inr h"
        using h[rule_format, of "Suc j"] by simp
    qed
    ultimately show ?thesis using miss[of h] by simp
  qed
  have hit': "lk' h = Some (i + j)"
    if j: "j < length (s # rest)"
      and last: "\<forall>k. j < k \<and> k < length (s # rest) \<longrightarrow>
                numpy_hash sha1 ((s # rest) ! k) \<noteq> numpy_hash sha1 ((s # rest) ! j)"
      and hj: "numpy_hash sha1 ((s # rest) ! j) = Inr h" for j h
  proof (cases j)
    case 0
    have h: "h = sha1 b" using hj 0 by (simp add: hs)
    have "\<forall>k<length rest. numpy_hash sha1 (rest ! k) \<noteq> Inr h"
    proof (intro allI impI)
      fix k assume "k < length rest"
      then show "numpy_hash sha1 (rest ! k) \<noteq> Inr h"
        using last[rule_format, of "Suc k"] 0 by (simp add: hs h)
    qed
    then have "lk' h = (lk(sha1 b \<mapsto> i)) h" by (rule miss)
    then show ?thesis using 0 by (simp add: h)
  next
    case (Suc j')
    have j': "j' < length rest" using j Suc by simp
    have "\<forall>k. j' < k \<and> k < length rest \<longrightarrow>
            numpy_hash sha1 (rest ! k) \<noteq> numpy_hash sha1 (rest ! j')"
    proof (intro allI impI)
      fix k assume "j' < k \<and> k < length rest"
      then show "numpy_hash sha1 (rest ! k) \<noteq> numpy_hash sha1 (rest ! j')"
        using last[rule_format, of "Suc k"] Suc by simp
    qed
    moreover have "numpy_hash sha1 (rest ! j') = Inr h" using hj Suc by simp
    ultimately have "lk' h = Some (Suc i + j')" using j' hit by blast
    then show ?thesis using Suc by simp
  qed
  show ?case
    unfolding step run buf using miss' hit' by blast
qed

lemma init_run:
  assumes "ss \<noteq> []"
    and "\<forall>s\<in>set ss. shape (elems s) = [L, D] \<and> (\<exists>b. view_bytes s = Inr b)"
    and "D \<noteq> 0"
  shows "\<exists>lk. ParallelAlignment_init sha1 (Many ss) tgt =
           Inr \<lparr>lookup = lk,
                sources = Arr3 L D (length ss)
                  (tab3 L D (length ss) (\<lambda>a b k. flat (elems (ss ! k)) ! (a * D + b))),
                aligned_sources = Arr3 L D (length ss)
                  (tab3 L D (length ss) (\<lambda>a b k. flat (elems (ss ! k)) ! (a * D + b))),
                target = (case tgt of
                    None \<Rightarrow> newaxis (mean_axis2 (Arr3 L D (length ss)
                      (tab3 L D (length ss) (\<lambda>a b k. flat (elems (ss ! k)) ! (a * D + b)))))
                  | Some g \<Rightarrow> newaxis g)\<rparr> \<and>
         (\<forall>h. (\<forall>j<length ss. numpy_hash sha1 (ss ! j) \<noteq> Inr h) \<longrightarrow> lk h = None) \<and>
         (\<forall>j<length ss. (\<forall>k. j < k \<and> k < length ss \<longrightarrow>
                numpy_hash sha1 (ss ! k) \<noteq> numpy_hash sha1 (ss ! j)) \<longrightarrow>
             (\<forall>h. numpy_hash sha1 (ss ! j) = Inr h \<longrightarrow> lk h = Some j))"
proof -
  obtain s0 rest where ss: "ss = s0 # rest" using assms(1) by (cases ss) auto
  have sh0: "shape (elems s0) = [L, D]" using assms(2) ss by simp
  obtain lk where
    run: "add_sources sha1 D 0 ss (Arr3 L D (length ss) (replicate (L * D * length ss) 0), Map.empty) =
           Inr (Arr3 L D (length ss) (tab3 L D (length ss) (\<lambda>a b k. if 0 \<le> k \<and> k < 0 + length ss
                      then flat (elems (ss ! (k - 0))) ! (a * D + b)
                      else replicate (L * D * length ss) 0 ! ((a * D + b) * length ss + k))), lk)"
    and miss: "\<forall>h. (\<forall>j<length ss. numpy_hash sha1 (ss ! j) \<noteq> Inr h) \<longrightarrow> lk h = Map.empty h"
    and hit: "\<forall>j<length ss. (\<forall>k. j < k \<and> k < length ss \<longrightarrow>
                numpy_hash sha1 (ss ! k) \<noteq> numpy_hash sha1 (ss ! j)) \<longrightarrow>
             (\<forall>h. numpy_hash sha1 (ss ! j) = Inr h \<longrightarrow> lk h = Some (0 + j))"
    using add_sources_run[of ss L D D 0 "length ss" "replicate (L * D * length ss) 0" sha1 Map.empty]
      assms by auto
  have buf: "tab3 L D (length ss) (\<lambda>a b k. if 0 \<le> k \<and> k < 0 + length ss
                      then flat (elems (ss ! (k - 0))) ! (a * D + b)
                      else replicate (L * D * length ss) 0 ! ((a * D + b) * length ss + k))
           = tab3 L D (length ss) (\<lambda>a b k. flat (elems (ss ! k)) ! (a * D + b))"
    by (rule tab3_cong) simp
  have unf: "ParallelAlignment_init sha1 (Many ss) tgt =
      (case add_sources sha1 D 0 ss
              (Arr3 L D (length ss) (replicate (L * D * length ss) 0), Map.empty) of
         Inl e \<Rightarrow> Inl e
       | Inr (t, lk) \<Rightarrow>
           Inr \<lparr>lookup = lk, sources = t, aligned_sources = t,
                target = (case tgt of None \<Rightarrow> newaxis (mean_axis2 t) | Some g \<Rightarrow> newaxis g)\<rparr>)"
    using sh0 assms(3)
    by (simp add: ParallelAlignment_init_def np_zeros3_def ss Let_def
        del: add_sources.simps split: option.splits sum.splits prod.splits)
  have "ParallelAlignment_init sha1 (Many ss) tgt =
           Inr \<lparr>lookup = lk,
                sources = Arr3 L D (length ss)
                  (tab3 L D (length ss) (\<lambda>a b k. flat (elems (ss ! k)) ! (a * D + b))),
                aligned_sources = Arr3 L D (length ss)
                  (tab3 L D (length ss) (\<lambda>a b k. flat (elems (ss ! k)) ! (a * D + b))),
                target = (case tgt of
                    None \<Rightarrow> newaxis (mean_axis2 (Arr3 L D (length ss)
                      (tab3 L D (length ss) (\<lambda>a b k. flat (elems (ss ! k)) ! (a * D + b)))))
                  | Some g \<Rightarrow> newaxis g)\<rparr>"
    by (simp only: unf run buf sum.case prod.case)
  then show ?thesis using miss hit by auto
qed

lemma last_index:
  fixes i n :: nat
  assumes "i < n" and "P i"
  shows "\<exists>j<n. P j \<and> i \<le> j \<and> (\<forall>k. j < k \<and> k < n \<longrightarrow> \<not> P k)"
proof -
  define j where "j = (GREATEST j. j < n \<and> P j)"
  have ex: "\<exists>y. y < n \<and> P y" using assms by blast
  have bound: "\<And>y. y < n \<and> P y \<Longrightarrow> y \<le> n" by simp
  have jn: "j < n \<and> P j"
    unfolding j_def by (rule GreatestI_ex_nat[OF ex bound])
  have le: "k \<le> j" if "k < n \<and> P k" for k
    unfolding j_def using that bound by (rule Greatest_le_nat)
  have "i \<le> j" using le[of i] assms by simp
  moreover have "\<not> P k" if "j < k \<and> k < n" for k
    using le[of k] that by auto
  ultimately show ?thesis using jn by blast
qed

lemma slice_stack:
  assumes "j < length ss" and "elems (ss ! j) = Arr2 L D e" and "length e = L * D"
  shows "slice_last_axis (Arr3 L D (length ss)
           (tab3 L D (length ss) (\<lambda>a b k. flat (elems (ss ! k)) ! (a * D + b)))) j =
         Inr (elems (ss ! j))"
proof -
  have "tab2 L D (\<lambda>a b. tab3 L D (length ss) (\<lambda>a b k. flat (elems (ss ! k)) ! (a * D + b)) !
                          ((a * D + b) * length ss + j)) = tab2 L D (\<lambda>a b. e ! (a * D + b))"
    using assms by (intro tab2_cong) (simp add: tab3_nth)
  then show ?thesis using assms by (simp add: tab2_id)
qed

lemma entry_flat: "shape s = [L, D] \<Longrightarrow> flat s ! (a * D + b) = entry s a b"
  by (cases s) auto

lemma lookup_at:
  "lookup pa h = Some j \<Longrightarrow> numpy_hash sha1 q = Inr h \<Longrightarrow>
   aligned_version_of_source sha1 (pa\<lparr>aligned_sources := X\<rparr>) q = slice_last_axis X j"
  by (simp add: aligned_version_of_source_def)

lemma lookup_none:
  "lookup pa h = None \<Longrightarrow> numpy_hash sha1 q = Inr h \<Longrightarrow>
   aligned_version_of_source sha1 (pa\<lparr>aligned_sources := X\<rparr>) q = Inl KeyError"
  by (simp add: aligned_version_of_source_def)

text \<open>
  When the first source has \<open>n_dim = 0\<close> the assertion of the loop fails at the first
  source, so nothing is constructed from sources of shape \<open>(L, 0)\<close>.
\<close>

lemma init_no_dim:
  "shape (elems s0) = [L, 0] \<Longrightarrow>
   ParallelAlignment_init sha1 (Many (s0 # rest)) tgt = Inl AssertionError"
  by (simp add: ParallelAlignment_init_def)

text \<open>
  Claim C9. A bare array \<open>a\<close> is treated as the list \<open>[a]\<close>: the two constructions
  return the same result (the same error, or objects equal in every field, hence in
  \<open>n_landmarks\<close>, \<open>n_dimensions\<close>, \<open>n_sources\<close> and in every lookup). For a 2-d
  \<open>a\<close> of shape \<open>(L, D)\<close> with \<open>D\<close> not 0 and a byte view, the construction succeeds
  with \<open>n_landmarks = L\<close>, \<open>n_dimensions = D\<close> and \<open>n_sources = 1\<close>.
\<close>

theorem single_array_as_list:
  "ParallelAlignment_init sha1 (Single a) tgt = ParallelAlignment_init sha1 (Many [a]) tgt \<and>
   (\<forall>L D b. shape (elems a) = [L, D] \<and> D \<noteq> 0 \<and> view_bytes a = Inr b \<longrightarrow>
      (\<exists>pa. ParallelAlignment_init sha1 (Single a) tgt = Inr pa \<and>
            n_landmarks pa = L \<and> n_dimensions pa = D \<and> n_sources pa = 1))"
proof (intro conjI allI impI)
  show eq: "ParallelAlignment_init sha1 (Single a) tgt = ParallelAlignment_init sha1 (Many [a]) tgt"
    by (simp add: ParallelAlignment_init_def)
  fix L D b assume a: "shape (elems a) = [L, D] \<and> D \<noteq> 0 \<and> view_bytes a = Inr b"
  then obtain lk where "ParallelAlignment_init sha1 (Many [a]) tgt =
           Inr \<lparr>lookup = lk,
                sources = Arr3 L D (length [a])
                  (tab3 L D (length [a]) (\<lambda>x b k. flat (elems ([a] ! k)) ! (x * D + b))),
                aligned_sources = Arr3 L D (length [a])
                  (tab3 L D (length [a]) (\<lambda>x b k. flat (elems ([a] ! k)) ! (x * D + b))),
                target = (case tgt of
                    None \<Rightarrow> newaxis (mean_axis2 (Arr3 L D (length [a])
                      (tab3 L D (length [a]) (\<lambda>x b k. flat (elems ([a] ! k)) ! (x * D + b)))))
                  | Some g \<Rightarrow> newaxis g)\<rparr>"
    using init_run[of "[a]" L D sha1 tgt] by auto
  then show "\<exists>pa. ParallelAlignment_init sha1 (Single a) tgt = Inr pa \<and>
            n_landmarks pa = L \<and> n_dimensions pa = D \<and> n_sources pa = 1"
    unfolding eq by (simp add: n_landmarks_def n_dimensions_def n_sources_def)
qed

theorem single_array_as_list_witness:
  "ParallelAlignment_init (\<lambda>b. b) (Single \<lparr>elems = Arr2 1 2 [1, 2],
        view_bytes = Inr [0, 0, 0, 0, 0, 0, 240, 63, 0, 0, 0, 0, 0, 0, 0, 64]\<rparr>) None =
     ParallelAlignment_init (\<lambda>b. b) (Many [\<lparr>elems = Arr2 1 2 [1, 2],
        view_bytes = Inr [0, 0, 0, 0, 0, 0, 240, 63, 0, 0, 0, 0, 0, 0, 0, 64]\<rparr>]) None \<and>
   (\<exists>pa. ParallelAlignment_init (\<lambda>b. b) (Single \<lparr>elems = Arr2 1 2 [1, 2],
        view_bytes = Inr [0, 0, 0, 0, 0, 0, 240, 63, 0, 0, 0, 0, 0, 0, 0, 64]\<rparr>) None = Inr pa \<and>
         n_landmarks pa = 1 \<and> n_dimensions pa = 2 \<and> n_sources pa = 1)"
proof -
  note t = single_array_as_list [of "(\<lambda>b. b)" "\<lparr>elems = Arr2 1 2 [1, 2],
        view_bytes = Inr [0, 0, 0, 0, 0, 0, 240, 63, 0, 0, 0, 0, 0, 0, 0, 64]\<rparr>" None]
  have "\<exists>pa. ParallelAlignment_init (\<lambda>b. b) (Single \<lparr>elems = Arr2 1 2 [1, 2],
        view_bytes = Inr [0, 0, 0, 0, 0, 0, 240, 63, 0, 0, 0, 0, 0, 0, 0, 64]\<rparr>) None = Inr pa \<and>
         n_landmarks pa = 1 \<and> n_dimensions pa = 2 \<and> n_sources pa = 1"
    using t [THEN conjunct2, rule_format, of 1 2] by simp
  then show ?thesis
    using t [THEN conjunct1] by (intro conjI) simp_all
qed

text \<open>
  Claim C5. For a non-empty list of sources of shape \<open>(L, D)\<close>, \<open>D\<close> not 0, each with
  a byte view, and no target given, construction succeeds and the stored target has
  shape \<open>(L, D, 1)\<close> with entry \<open>(a, b, 0)\<close> the mean over the sources \<open>k\<close> of their
  entries \<open>(a, b)\<close>.
\<close>

theorem ParallelAlignment_mean_target:
  assumes "ss \<noteq> []"
    and "\<forall>s\<in>set ss. shape (elems s) = [L, D] \<and> (\<exists>b. view_bytes s = Inr b)"
    and "D \<noteq> 0"
  shows "\<exists>pa. ParallelAlignment_init sha1 (Many ss) None = Inr pa \<and>
     target pa = Three (Arr3 L D 1 (tab2 L D
        (\<lambda>a b. dsum (length ss) (\<lambda>k. entry (elems (ss ! k)) a b) / real (length ss))))"
proof -
  obtain lk where
    init: "ParallelAlignment_init sha1 (Many ss) None =
           Inr \<lparr>lookup = lk,
                sources = Arr3 L D (length ss)
                  (tab3 L D (length ss) (\<lambda>a b k. flat (elems (ss ! k)) ! (a * D + b))),
                aligned_sources = Arr3 L D (length ss)
                  (tab3 L D (length ss) (\<lambda>a b k. flat (elems (ss ! k)) ! (a * D + b))),
                target = (case None of
                    None \<Rightarrow> newaxis (mean_axis2 (Arr3 L D (length ss)
                      (tab3 L D (length ss) (\<lambda>a b k. flat (elems (ss ! k)) ! (a * D + b)))))
                  | Some g \<Rightarrow> newaxis g)\<rparr>"
    using init_run[OF assms, of sha1 None] by blast
  have mean: "tab2 L D (\<lambda>a b. dsum (length ss)
                 (\<lambda>k. tab3 L D (length ss) (\<lambda>a b k. flat (elems (ss ! k)) ! (a * D + b)) !
                        ((a * D + b) * length ss + k)) / real (length ss)) =
              tab2 L D (\<lambda>a b. dsum (length ss) (\<lambda>k. entry (elems (ss ! k)) a b) /
                               real (length ss))"
  proof (rule tab2_cong)
    fix a b assume ab: "a < L" "b < D"
    have "dsum (length ss)
            (\<lambda>k. tab3 L D (length ss) (\<lambda>a b k. flat (elems (ss ! k)) ! (a * D + b)) !
                   ((a * D + b) * length ss + k)) =
          dsum (length ss) (\<lambda>k. entry (elems (ss ! k)) a b)"
    proof (rule dsum_cong)
      fix k assume k: "k < length ss"
      then have "shape (elems (ss ! k)) = [L, D]" using assms(2) by simp
      then show "tab3 L D (length ss) (\<lambda>a b k. flat (elems (ss ! k)) ! (a * D + b)) !
                   ((a * D + b) * length ss + k) = entry (elems (ss ! k)) a b"
        using ab k by (simp add: tab3_nth entry_flat)
    qed
    then show "dsum (length ss)
            (\<lambda>k. tab3 L D (length ss) (\<lambda>a b k. flat (elems (ss ! k)) ! (a * D + b)) !
                   ((a * D + b) * length ss + k)) / real (length ss) =
          dsum (length ss) (\<lambda>k. entry (elems (ss ! k)) a b) / real (length ss)"
      by simp
  qed
  show ?thesis
    unfolding init by (simp add: mean)
qed

theorem ParallelAlignment_mean_target_witness:
  "[\<lparr>elems = Arr2 1 2 [1, 2],
        view_bytes = Inr [0, 0, 0, 0, 0, 0, 240, 63, 0, 0, 0, 0, 0, 0, 0, 64]\<rparr>, \<lparr>elems = Arr2 1 2 [3, 4],
        view_bytes = Inr [0, 0, 0, 0, 0, 0, 8, 64, 0, 0, 0, 0, 0, 0, 16, 64]\<rparr>, \<lparr>elems = Arr2 1 2 [5, 9],
        view_bytes = Inr [0, 0, 0, 0, 0, 0, 20, 64, 0, 0, 0, 0, 0, 0, 34, 64]\<rparr>] \<noteq> [] \<and> (2::nat) \<noteq> 0 \<and>
   (\<exists>pa. ParallelAlignment_init (\<lambda>b. b) (Many [\<lparr>elems = Arr2 1 2 [1, 2],
        view_bytes = Inr [0, 0, 0, 0, 0, 0, 240, 63, 0, 0, 0, 0, 0, 0, 0, 64]\<rparr>, \<lparr>elems = Arr2 1 2 [3, 4],
        view_bytes = Inr [0, 0, 0, 0, 0, 0, 8, 64, 0, 0, 0, 0, 0, 0, 16, 64]\<rparr>, \<lparr>elems = Arr2 1 2 [5, 9],
        view_bytes = Inr [0, 0, 0, 0, 0, 0, 20, 64, 0, 0, 0, 0, 0, 0, 34, 64]\<rparr>]) None = Inr pa \<and>
         target pa = Three (Arr3 1 2 1 [3, 5]))"
  using ParallelAlignment_mean_target [of "[\<lparr>elems = Arr2 1 2 [1, 2],
        view_bytes = Inr [0, 0, 0, 0, 0, 0, 240, 63, 0, 0, 0, 0, 0, 0, 0, 64]\<rparr>, \<lparr>elems = Arr2 1 2 [3, 4],
        view_bytes = Inr [0, 0, 0, 0, 0, 0, 8, 64, 0, 0, 0, 0, 0, 0, 16, 64]\<rparr>, \<lparr>elems = Arr2 1 2 [5, 9],
        view_bytes = Inr [0, 0, 0, 0, 0, 0, 20, 64, 0, 0, 0, 0, 0, 0, 34, 64]\<rparr>]" 1 2 "(\<lambda>b. b)"]
  by (simp add: tab2_def dsum_def upt_rec)

text \<open>
  Claim C4. Let the sources be well-formed arrays of one shape \<open>(L, D)\<close>, \<open>D\<close> not 0,
  each with a byte view, no two with the same content hash. Then construction succeeds,
  and whatever \<open>aligned_sources\<close> holds by the time of the call (\<open>X\<close>):
  for every array \<open>q\<close> whose bytes are those of the source at index \<open>i\<close>,
  \<open>aligned_version_of_source(q)\<close> is the slice \<open>X[..., i]\<close>; on the object as
  constructed that slice is the source itself; and for every array whose content hash
  is the hash of no source (as for \<open>-0.0\<close> against a source \<open>0.0\<close>) it raises KeyError.
\<close>

theorem aligned_version_of_source_lookup:
  assumes "ss \<noteq> []"
    and "\<forall>s\<in>set ss. wf (elems s) \<and> shape (elems s) = [L, D] \<and> (\<exists>b. view_bytes s = Inr b)"
    and "D \<noteq> 0"
    and "distinct (map (numpy_hash sha1) ss)"
  shows "\<exists>pa. ParallelAlignment_init sha1 (Many ss) tgt = Inr pa \<and>
     (\<forall>i q X. i < length ss \<and> view_bytes q = view_bytes (ss ! i) \<longrightarrow>
        aligned_version_of_source sha1 (pa\<lparr>aligned_sources := X\<rparr>) q = slice_last_axis X i) \<and>
     (\<forall>i q. i < length ss \<and> view_bytes q = view_bytes (ss ! i) \<longrightarrow>
        aligned_version_of_source sha1 pa q = Inr (elems (ss ! i))) \<and>
     (\<forall>q h X. numpy_hash sha1 q = Inr h \<and> Inr h \<notin> numpy_hash sha1 ` set ss \<longrightarrow>
        aligned_version_of_source sha1 (pa\<lparr>aligned_sources := X\<rparr>) q = Inl KeyError)"
proof -
  have shapes: "\<forall>s\<in>set ss. shape (elems s) = [L, D] \<and> (\<exists>b. view_bytes s = Inr b)"
    using assms(2) by simp
  define T where "T = Arr3 L D (length ss)
                  (tab3 L D (length ss) (\<lambda>a b k. flat (elems (ss ! k)) ! (a * D + b)))"
  obtain lk where
    init: "ParallelAlignment_init sha1 (Many ss) tgt =
           Inr \<lparr>lookup = lk, sources = T, aligned_sources = T,
                target = (case tgt of
                    None \<Rightarrow> newaxis (mean_axis2 T)
                  | Some g \<Rightarrow> newaxis g)\<rparr>"
    and miss: "\<And>h. (\<forall>j<length ss. numpy_hash sha1 (ss ! j) \<noteq> Inr h) \<Longrightarrow> lk h = None"
    and hit: "\<And>j h. j < length ss \<Longrightarrow> (\<forall>k. j < k \<and> k < length ss \<longrightarrow>
                numpy_hash sha1 (ss ! k) \<noteq> numpy_hash sha1 (ss ! j)) \<Longrightarrow>
             numpy_hash sha1 (ss ! j) = Inr h \<Longrightarrow> lk h = Some j"
    unfolding T_def using init_run[OF assms(1) shapes assms(3), of sha1 tgt] by blast
  define pa where "pa = \<lparr>lookup = lk, sources = T, aligned_sources = T,
                target = (case tgt of
                    None \<Rightarrow> newaxis (mean_axis2 T)
                  | Some g \<Rightarrow> newaxis g)\<rparr>"
  have lkpa: "lookup pa = lk" and al: "aligned_sources pa = T" by (simp_all add: pa_def)
  have self: "pa\<lparr>aligned_sources := T\<rparr> = pa" by (simp add: pa_def)
  have at: "\<exists>h. numpy_hash sha1 (ss ! i) = Inr h \<and> lk h = Some i" if il: "i < length ss" for i
  proof -
    have "ss ! i \<in> set ss" using il by simp
    then obtain b where "view_bytes (ss ! i) = Inr b" using assms(2) by blast
    then have h: "numpy_hash sha1 (ss ! i) = Inr (sha1 b)" by (rule numpy_hash_bytes)
    have "\<forall>k. i < k \<and> k < length ss \<longrightarrow> numpy_hash sha1 (ss ! k) \<noteq> numpy_hash sha1 (ss ! i)"
    proof (intro allI impI)
      fix k assume k: "i < k \<and> k < length ss"
      have "k < length (map (numpy_hash sha1) ss)" and "i < length (map (numpy_hash sha1) ss)"
        and "k \<noteq> i"
        using k il by simp_all
      then have "map (numpy_hash sha1) ss ! k \<noteq> map (numpy_hash sha1) ss ! i"
        using assms(4) unfolding distinct_conv_nth by blast
      then show "numpy_hash sha1 (ss ! k) \<noteq> numpy_hash sha1 (ss ! i)"
        using k il by simp
    qed
    then have "lk (sha1 b) = Some i" using hit[OF il _ h] by blast
    then show ?thesis using h by blast
  qed
  have found: "aligned_version_of_source sha1 (pa\<lparr>aligned_sources := X\<rparr>) q = slice_last_axis X i"
    if il: "i < length ss" and eq: "view_bytes q = view_bytes (ss ! i)" for i q X
  proof -
    obtain h where h: "numpy_hash sha1 (ss ! i) = Inr h" "lk h = Some i" using at[OF il] by blast
    have "numpy_hash sha1 q = Inr h" using h(1) numpy_hash_same[OF eq, of sha1] by simp
    then show ?thesis using h(2) lkpa by (intro lookup_at) simp_all
  qed
  have slice: "slice_last_axis T i = Inr (elems (ss ! i))" if il: "i < length ss" for i
  proof -
    have "wf (elems (ss ! i)) \<and> shape (elems (ss ! i)) = [L, D]" using assms(2) il by simp
    then obtain e where "elems (ss ! i) = Arr2 L D e" and "length e = L * D"
      by (cases "elems (ss ! i)") auto
    then show ?thesis unfolding T_def using il by (intro slice_stack)
  qed
  have fresh: "aligned_version_of_source sha1 pa q = Inr (elems (ss ! i))"
    if il: "i < length ss" and eq: "view_bytes q = view_bytes (ss ! i)" for i q
    using found[OF il eq, of T] slice[OF il] by (simp add: self)
  have notfound: "aligned_version_of_source sha1 (pa\<lparr>aligned_sources := X\<rparr>) q = Inl KeyError"
    if h: "numpy_hash sha1 q = Inr h" and nh: "Inr h \<notin> numpy_hash sha1 ` set ss" for q h X
  proof -
    have "\<forall>j<length ss. numpy_hash sha1 (ss ! j) \<noteq> Inr h"
    proof (intro allI impI)
      fix j assume "j < length ss"
      then have "numpy_hash sha1 (ss ! j) \<in> numpy_hash sha1 ` set ss" by simp
      then show "numpy_hash sha1 (ss ! j) \<noteq> Inr h" using nh by auto
    qed
    then have "lk h = None" by (rule miss)
    then show ?thesis using h lkpa by (intro lookup_none) simp_all
  qed
  have "ParallelAlignment_init sha1 (Many ss) tgt = Inr pa"
    using init by (simp only: pa_def)
  moreover have "\<forall>i q X. i < length ss \<and> view_bytes q = view_bytes (ss ! i) \<longrightarrow>
        aligned_version_of_source sha1 (pa\<lparr>aligned_sources := X\<rparr>) q = slice_last_axis X i"
    using found by blast
  moreover have "\<forall>i q. i < length ss \<and> view_bytes q = view_bytes (ss ! i) \<longrightarrow>
        aligned_version_of_source sha1 pa q = Inr (elems (ss ! i))"
    using fresh by blast
  moreover have "\<forall>q h X. numpy_hash sha1 q = Inr h \<and> Inr h \<notin> numpy_hash sha1 ` set ss \<longrightarrow>
        aligned_version_of_source sha1 (pa\<lparr>aligned_sources := X\<rparr>) q = Inl KeyError"
    using notfound by blast
  ultimately show ?thesis by (intro exI[of _ pa] conjI)
qed

theorem aligned_version_of_source_lookup_witness:
  "[\<lparr>elems = Arr2 1 1 [0],
        view_bytes = Inr [0, 0, 0, 0, 0, 0, 0, 0]\<rparr>, \<lparr>elems = Arr2 1 1 [1],
        view_bytes = Inr [0, 0, 0, 0, 0, 0, 240, 63]\<rparr>] \<noteq> [] \<and> wf (elems \<lparr>elems = Arr2 1 1 [0],
        view_bytes = Inr [0, 0, 0, 0, 0, 0, 0, 0]\<rparr>) \<and> wf (elems \<lparr>elems = Arr2 1 1 [1],
        view_bytes = Inr [0, 0, 0, 0, 0, 0, 240, 63]\<rparr>) \<and> (1::nat) \<noteq> 0 \<and>
   distinct (map (numpy_hash (\<lambda>b. b)) [\<lparr>elems = Arr2 1 1 [0],
        view_bytes = Inr [0, 0, 0, 0, 0, 0, 0, 0]\<rparr>, \<lparr>elems = Arr2 1 1 [1],
        view_bytes = Inr [0, 0, 0, 0, 0, 0, 240, 63]\<rparr>]) \<and>
   (\<exists>pa. ParallelAlignment_init (\<lambda>b. b) (Many [\<lparr>elems = Arr2 1 1 [0],
        view_bytes = Inr [0, 0, 0, 0, 0, 0, 0, 0]\<rparr>, \<lparr>elems = Arr2 1 1 [1],
        view_bytes = Inr [0, 0, 0, 0, 0, 0, 240, 63]\<rparr>]) None = Inr pa \<and>
      aligned_version_of_source (\<lambda>b. b) (pa\<lparr>aligned_sources := Arr3 1 1 2 [100, 200]\<rparr>) \<lparr>elems = Arr2 1 1 [0],
        view_bytes = Inr [0, 0, 0, 0, 0, 0, 0, 0]\<rparr> =
        Inr (Arr2 1 1 [100]) \<and>
      aligned_version_of_source (\<lambda>b. b) (pa\<lparr>aligned_sources := Arr3 1 1 2 [100, 200]\<rparr>) \<lparr>elems = Arr2 1 1 [1],
        view_bytes = Inr [0, 0, 0, 0, 0, 0, 240, 63]\<rparr> =
        Inr (Arr2 1 1 [200]) \<and>
      aligned_version_of_source (\<lambda>b. b) pa \<lparr>elems = Arr1 [0],
        view_bytes = Inr [0, 0, 0, 0, 0, 0, 0, 0]\<rparr> = Inr (Arr2 1 1 [0]) \<and>
      aligned_version_of_source (\<lambda>b. b) pa \<lparr>elems = Arr2 1 1 [0],
        view_bytes = Inr [0, 0, 0, 0, 0, 0, 0, 128]\<rparr> = Inl KeyError)"
proof -
  let ?a = "\<lparr>elems = Arr2 1 1 [0],
        view_bytes = Inr [0, 0, 0, 0, 0, 0, 0, 0]\<rparr>" and ?b = "\<lparr>elems = Arr2 1 1 [1],
        view_bytes = Inr [0, 0, 0, 0, 0, 0, 240, 63]\<rparr>"
  have h1: "[?a, ?b] \<noteq> []" by simp
  have h2: "\<forall>s\<in>set [?a, ?b]. wf (elems s) \<and> shape (elems s) = [1, 1] \<and>
              (\<exists>b. view_bytes s = Inr b)" by simp
  have h3: "(1::nat) \<noteq> 0" by simp
  have h4: "distinct (map (numpy_hash (\<lambda>b. b)) [?a, ?b])" by (simp add: numpy_hash_def)
  obtain pa where
    init: "ParallelAlignment_init (\<lambda>b. b) (Many [?a, ?b]) None = Inr pa"
    and found: "\<forall>i q X. i < length [?a, ?b] \<and> view_bytes q = view_bytes ([?a, ?b] ! i) \<longrightarrow>
        aligned_version_of_source (\<lambda>b. b) (pa\<lparr>aligned_sources := X\<rparr>) q = slice_last_axis X i"
    and fresh: "\<forall>i q. i < length [?a, ?b] \<and> view_bytes q = view_bytes ([?a, ?b] ! i) \<longrightarrow>
        aligned_version_of_source (\<lambda>b. b) pa q = Inr (elems ([?a, ?b] ! i))"
    and miss: "\<forall>q h X. numpy_hash (\<lambda>b. b) q = Inr h \<and>
          Inr h \<notin> numpy_hash (\<lambda>b. b) ` set [?a, ?b] \<longrightarrow>
        aligned_version_of_source (\<lambda>b. b) (pa\<lparr>aligned_sources := X\<rparr>) q = Inl KeyError"
    using aligned_version_of_source_lookup [OF h1 h2 h3 h4, of None] by blast
  have "aligned_version_of_source (\<lambda>b. b) (pa\<lparr>aligned_sources := Arr3 1 1 2 [100, 200]\<rparr>) ?a =
        Inr (Arr2 1 1 [100])"
    using found[rule_format, of 0 ?a "Arr3 1 1 2 [100, 200]"] by (simp add: tab2_def)
  moreover have "aligned_version_of_source (\<lambda>b. b) (pa\<lparr>aligned_sources := Arr3 1 1 2 [100, 200]\<rparr>) ?b =
        Inr (Arr2 1 1 [200])"
    using found[rule_format, of 1 ?b "Arr3 1 1 2 [100, 200]"] by (simp add: tab2_def)
  moreover have "aligned_version_of_source (\<lambda>b. b) pa \<lparr>elems = Arr1 [0],
        view_bytes = Inr [0, 0, 0, 0, 0, 0, 0, 0]\<rparr> = Inr (Arr2 1 1 [0])"
    using fresh[rule_format, of 0 "\<lparr>elems = Arr1 [0],
        view_bytes = Inr [0, 0, 0, 0, 0, 0, 0, 0]\<rparr>"] by simp
  moreover have "aligned_version_of_source (\<lambda>b. b) pa \<lparr>elems = Arr2 1 1 [0],
        view_bytes = Inr [0, 0, 0, 0, 0, 0, 0, 128]\<rparr> = Inl KeyError"
    using miss[rule_format, of "\<lparr>elems = Arr2 1 1 [0],
        view_bytes = Inr [0, 0, 0, 0, 0, 0, 0, 128]\<rparr>" "[0, 0, 0, 0, 0, 0, 0, 128]" "aligned_sources pa"]
    by (simp add: numpy_hash_def)
  ultimately show ?thesis using init h4 by simp
qed

text \<open>
  Claim C10, amended. Let the sources be well-formed arrays of one shape \<open>(L, D)\<close>,
  \<open>D\<close> not 0, each with a byte view. If positions \<open>i < j\<close> hold arrays with the same
  bytes and no position after \<open>j\<close> holds an array with that content hash, then
  construction succeeds, the lookup maps the hash to \<open>j\<close>, and whatever
  \<open>aligned_sources\<close> holds by the time of the call (\<open>X\<close>),
  \<open>aligned_version_of_source\<close> of that content is the slice \<open>X[..., j]\<close>. As stated,
  for any two positions \<open>i < j\<close>, the claim fails on three equal sources at \<open>i = 0\<close>,
  \<open>j = 1\<close>: the lookup holds index 2.
\<close>

theorem duplicate_sources_last_index:
  assumes "\<forall>s\<in>set ss. wf (elems s) \<and> shape (elems s) = [L, D] \<and> (\<exists>b. view_bytes s = Inr b)"
    and "D \<noteq> 0"
    and "i < j" and "j < length ss" and "view_bytes (ss ! i) = view_bytes (ss ! j)"
    and "\<forall>k. j < k \<and> k < length ss \<longrightarrow> numpy_hash sha1 (ss ! k) \<noteq> numpy_hash sha1 (ss ! j)"
  shows "\<exists>pa h. ParallelAlignment_init sha1 (Many ss) tgt = Inr pa \<and>
     numpy_hash sha1 (ss ! i) = Inr h \<and> lookup pa h = Some j \<and>
     (\<forall>X. aligned_version_of_source sha1 (pa\<lparr>aligned_sources := X\<rparr>) (ss ! i) =
            slice_last_axis X j) \<and>
     aligned_version_of_source sha1 pa (ss ! i) = Inr (elems (ss ! j))"
proof -
  have shapes: "\<forall>s\<in>set ss. shape (elems s) = [L, D] \<and> (\<exists>b. view_bytes s = Inr b)"
    using assms(1) by simp
  have ne: "ss \<noteq> []" using assms(4) by auto
  define T where "T = Arr3 L D (length ss)
                  (tab3 L D (length ss) (\<lambda>a b k. flat (elems (ss ! k)) ! (a * D + b)))"
  obtain lk where
    init: "ParallelAlignment_init sha1 (Many ss) tgt =
           Inr \<lparr>lookup = lk, sources = T, aligned_sources = T,
                target = (case tgt of
                    None \<Rightarrow> newaxis (mean_axis2 T)
                  | Some g \<Rightarrow> newaxis g)\<rparr>"
    and hit: "\<And>j h. j < length ss \<Longrightarrow> (\<forall>k. j < k \<and> k < length ss \<longrightarrow>
                numpy_hash sha1 (ss ! k) \<noteq> numpy_hash sha1 (ss ! j)) \<Longrightarrow>
             numpy_hash sha1 (ss ! j) = Inr h \<Longrightarrow> lk h = Some j"
    unfolding T_def using init_run[OF ne shapes assms(2), of sha1 tgt] by blast
  define pa where "pa = \<lparr>lookup = lk, sources = T, aligned_sources = T,
                target = (case tgt of
                    None \<Rightarrow> newaxis (mean_axis2 T)
                  | Some g \<Rightarrow> newaxis g)\<rparr>"
  have lkpa: "lookup pa = lk" by (simp add: pa_def)
  have self: "pa\<lparr>aligned_sources := T\<rparr> = pa" by (simp add: pa_def)
  have "ss ! j \<in> set ss" using assms(4) by simp
  then obtain b where "view_bytes (ss ! j) = Inr b" using assms(1) by blast
  then have hj: "numpy_hash sha1 (ss ! j) = Inr (sha1 b)" by (rule numpy_hash_bytes)
  have hi: "numpy_hash sha1 (ss ! i) = Inr (sha1 b)"
    using hj numpy_hash_same[OF assms(5), of sha1] by simp
  have lk: "lookup pa (sha1 b) = Some j"
    using hit[OF assms(4) assms(6) hj] lkpa by simp
  have upd: "aligned_version_of_source sha1 (pa\<lparr>aligned_sources := X\<rparr>) (ss ! i) =
            slice_last_axis X j" for X
    using lk hi by (rule lookup_at)
  have "wf (elems (ss ! j)) \<and> shape (elems (ss ! j)) = [L, D]" using assms(1,4) by simp
  then obtain e where "elems (ss ! j) = Arr2 L D e" and "length e = L * D"
    by (cases "elems (ss ! j)") auto
  then have "slice_last_axis T j = Inr (elems (ss ! j))"
    unfolding T_def using assms(4) by (intro slice_stack)
  then have fresh: "aligned_version_of_source sha1 pa (ss ! i) = Inr (elems (ss ! j))"
    using upd[of T] by (simp add: self)
  have "ParallelAlignment_init sha1 (Many ss) tgt = Inr pa"
    using init by (simp only: pa_def)
  then show ?thesis
    using hi lk upd fresh by (intro exI[of _ pa] exI[of _ "sha1 b"]) simp
qed

theorem duplicate_sources_last_index_witness:
  "(0::nat) < 2 \<and> (2::nat) < length [\<lparr>elems = Arr2 1 1 [1],
        view_bytes = Inr [0, 0, 0, 0, 0, 0, 240, 63]\<rparr>, \<lparr>elems = Arr2 1 1 [2],
        view_bytes = Inr [0, 0, 0, 0, 0, 0, 0, 64]\<rparr>, \<lparr>elems = Arr2 1 1 [1],
        view_bytes = Inr [0, 0, 0, 0, 0, 0, 240, 63]\<rparr>] \<and>
   (\<exists>pa. ParallelAlignment_init (\<lambda>b. b) (Many [\<lparr>elems = Arr2 1 1 [1],
        view_bytes = Inr [0, 0, 0, 0, 0, 0, 240, 63]\<rparr>, \<lparr>elems = Arr2 1 1 [2],
        view_bytes = Inr [0, 0, 0, 0, 0, 0, 0, 64]\<rparr>, \<lparr>elems = Arr2 1 1 [1],
        view_bytes = Inr [0, 0, 0, 0, 0, 0, 240, 63]\<rparr>]) None = Inr pa \<and>
         lookup pa [0, 0, 0, 0, 0, 0, 240, 63] = Some 2 \<and>
         aligned_version_of_source (\<lambda>b. b) (pa\<lparr>aligned_sources := Arr3 1 1 3 [10, 20, 30]\<rparr>) \<lparr>elems = Arr2 1 1 [1],
        view_bytes = Inr [0, 0, 0, 0, 0, 0, 240, 63]\<rparr> =
           Inr (Arr2 1 1 [30]) \<and>
         aligned_version_of_source (\<lambda>b. b) pa \<lparr>elems = Arr2 1 1 [1],
        view_bytes = Inr [0, 0, 0, 0, 0, 0, 240, 63]\<rparr> = Inr (Arr2 1 1 [1]))"
proof -
  have h1: "\<forall>s\<in>set [\<lparr>elems = Arr2 1 1 [1],
        view_bytes = Inr [0, 0, 0, 0, 0, 0, 240, 63]\<rparr>, \<lparr>elems = Arr2 1 1 [2],
        view_bytes = Inr [0, 0, 0, 0, 0, 0, 0, 64]\<rparr>, \<lparr>elems = Arr2 1 1 [1],
        view_bytes = Inr [0, 0, 0, 0, 0, 0, 240, 63]\<rparr>]. wf (elems s) \<and> shape (elems s) = [1, 1] \<and>
              (\<exists>b. view_bytes s = Inr b)" by simp
  have h2: "(1::nat) \<noteq> 0" by simp
  have h3: "(0::nat) < 2" by simp
  have h4: "(2::nat) < length [\<lparr>elems = Arr2 1 1 [1],
        view_bytes = Inr [0, 0, 0, 0, 0, 0, 240, 63]\<rparr>, \<lparr>elems = Arr2 1 1 [2],
        view_bytes = Inr [0, 0, 0, 0, 0, 0, 0, 64]\<rparr>, \<lparr>elems = Arr2 1 1 [1],
        view_bytes = Inr [0, 0, 0, 0, 0, 0, 240, 63]\<rparr>]" by simp
  have h5: "view_bytes ([\<lparr>elems = Arr2 1 1 [1],
        view_bytes = Inr [0, 0, 0, 0, 0, 0, 240, 63]\<rparr>, \<lparr>elems = Arr2 1 1 [2],
        view_bytes = Inr [0, 0, 0, 0, 0, 0, 0, 64]\<rparr>, \<lparr>elems = Arr2 1 1 [1],
        view_bytes = Inr [0, 0, 0, 0, 0, 0, 240, 63]\<rparr>] ! 0) = view_bytes ([\<lparr>elems = Arr2 1 1 [1],
        view_bytes = Inr [0, 0, 0, 0, 0, 0, 240, 63]\<rparr>, \<lparr>elems = Arr2 1 1 [2],
        view_bytes = Inr [0, 0, 0, 0, 0, 0, 0, 64]\<rparr>, \<lparr>elems = Arr2 1 1 [1],
        view_bytes = Inr [0, 0, 0, 0, 0, 0, 240, 63]\<rparr>] ! 2)" by simp
  have h6: "\<forall>k. 2 < k \<and> k < length [\<lparr>elems = Arr2 1 1 [1],
        view_bytes = Inr [0, 0, 0, 0, 0, 0, 240, 63]\<rparr>, \<lparr>elems = Arr2 1 1 [2],
        view_bytes = Inr [0, 0, 0, 0, 0, 0, 0, 64]\<rparr>, \<lparr>elems = Arr2 1 1 [1],
        view_bytes = Inr [0, 0, 0, 0, 0, 0, 240, 63]\<rparr>] \<longrightarrow>
              numpy_hash (\<lambda>b. b) ([\<lparr>elems = Arr2 1 1 [1],
        view_bytes = Inr [0, 0, 0, 0, 0, 0, 240, 63]\<rparr>, \<lparr>elems = Arr2 1 1 [2],
        view_bytes = Inr [0, 0, 0, 0, 0, 0, 0, 64]\<rparr>, \<lparr>elems = Arr2 1 1 [1],
        view_bytes = Inr [0, 0, 0, 0, 0, 0, 240, 63]\<rparr>] ! k) \<noteq> numpy_hash (\<lambda>b. b) ([\<lparr>elems = Arr2 1 1 [1],
        view_bytes = Inr [0, 0, 0, 0, 0, 0, 240, 63]\<rparr>, \<lparr>elems = Arr2 1 1 [2],
        view_bytes = Inr [0, 0, 0, 0, 0, 0, 0, 64]\<rparr>, \<lparr>elems = Arr2 1 1 [1],
        view_bytes = Inr [0, 0, 0, 0, 0, 0, 240, 63]\<rparr>] ! 2)" by auto
  obtain pa h where
    init: "ParallelAlignment_init (\<lambda>b. b) (Many [\<lparr>elems = Arr2 1 1 [1],
        view_bytes = Inr [0, 0, 0, 0, 0, 0, 240, 63]\<rparr>, \<lparr>elems = Arr2 1 1 [2],
        view_bytes = Inr [0, 0, 0, 0, 0, 0, 0, 64]\<rparr>, \<lparr>elems = Arr2 1 1 [1],
        view_bytes = Inr [0, 0, 0, 0, 0, 0, 240, 63]\<rparr>]) None = Inr pa"
    and h: "numpy_hash (\<lambda>b. b) ([\<lparr>elems = Arr2 1 1 [1],
        view_bytes = Inr [0, 0, 0, 0, 0, 0, 240, 63]\<rparr>, \<lparr>elems = Arr2 1 1 [2],
        view_bytes = Inr [0, 0, 0, 0, 0, 0, 0, 64]\<rparr>, \<lparr>elems = Arr2 1 1 [1],
        view_bytes = Inr [0, 0, 0, 0, 0, 0, 240, 63]\<rparr>] ! 0) = Inr h" and lk: "lookup pa h = Some 2"
    and upd: "\<forall>X. aligned_version_of_source (\<lambda>b. b) (pa\<lparr>aligned_sources := X\<rparr>) ([\<lparr>elems = Arr2 1 1 [1],
        view_bytes = Inr [0, 0, 0, 0, 0, 0, 240, 63]\<rparr>, \<lparr>elems = Arr2 1 1 [2],
        view_bytes = Inr [0, 0, 0, 0, 0, 0, 0, 64]\<rparr>, \<lparr>elems = Arr2 1 1 [1],
        view_bytes = Inr [0, 0, 0, 0, 0, 0, 240, 63]\<rparr>] ! 0) =
            slice_last_axis X 2"
    and fresh: "aligned_version_of_source (\<lambda>b. b) pa ([\<lparr>elems = Arr2 1 1 [1],
        view_bytes = Inr [0, 0, 0, 0, 0, 0, 240, 63]\<rparr>, \<lparr>elems = Arr2 1 1 [2],
        view_bytes = Inr [0, 0, 0, 0, 0, 0, 0, 64]\<rparr>, \<lparr>elems = Arr2 1 1 [1],
        view_bytes = Inr [0, 0, 0, 0, 0, 0, 240, 63]\<rparr>] ! 0) = Inr (elems ([\<lparr>elems = Arr2 1 1 [1],
        view_bytes = Inr [0, 0, 0, 0, 0, 0, 240, 63]\<rparr>, \<lparr>elems = Arr2 1 1 [2],
        view_bytes = Inr [0, 0, 0, 0, 0, 0, 0, 64]\<rparr>, \<lparr>elems = Arr2 1 1 [1],
        view_bytes = Inr [0, 0, 0, 0, 0, 0, 240, 63]\<rparr>] ! 2))"
    using duplicate_sources_last_index [OF h1 h2 h3 h4 h5 h6, of None] by blast
  have "h = [0, 0, 0, 0, 0, 0, 240, 63]" using h by (simp add: numpy_hash_def)
  then have "lookup pa [0, 0, 0, 0, 0, 0, 240, 63] = Some 2" using lk by simp
  moreover have "aligned_version_of_source (\<lambda>b. b) (pa\<lparr>aligned_sources := Arr3 1 1 3 [10, 20, 30]\<rparr>) \<lparr>elems = Arr2 1 1 [1],
        view_bytes = Inr [0, 0, 0, 0, 0, 0, 240, 63]\<rparr> =
           Inr (Arr2 1 1 [30])"
    using upd[rule_format, of "Arr3 1 1 3 [10, 20, 30]"] by (simp add: tab2_def)
  moreover have "aligned_version_of_source (\<lambda>b. b) pa \<lparr>elems = Arr2 1 1 [1],
        view_bytes = Inr [0, 0, 0, 0, 0, 0, 240, 63]\<rparr> = Inr (Arr2 1 1 [1])"
    using fresh by simp
  ultimately show ?thesis using init by simp
qed

theorem duplicate_sources_counterexample:
  "(case ParallelAlignment_init (\<lambda>b. b) (Many [\<lparr>elems = Arr2 1 1 [5],
        view_bytes = Inr [0, 0, 0, 0, 0, 0, 20, 64]\<rparr>, \<lparr>elems = Arr2 1 1 [5],
        view_bytes = Inr [0, 0, 0, 0, 0, 0, 20, 64]\<rparr>, \<lparr>elems = Arr2 1 1 [5],
        view_bytes = Inr [0, 0, 0, 0, 0, 0, 20, 64]\<rparr>]) None of
      Inl e \<Rightarrow> None
    | Inr pa \<Rightarrow> lookup pa [0, 0, 0, 0, 0, 0, 20, 64]) = Some 2 \<and>
   view_bytes ([\<lparr>elems = Arr2 1 1 [5],
        view_bytes = Inr [0, 0, 0, 0, 0, 0, 20, 64]\<rparr>, \<lparr>elems = Arr2 1 1 [5],
        view_bytes = Inr [0, 0, 0, 0, 0, 0, 20, 64]\<rparr>, \<lparr>elems = Arr2 1 1 [5],
        view_bytes = Inr [0, 0, 0, 0, 0, 0, 20, 64]\<rparr>] ! 0) = view_bytes ([\<lparr>elems = Arr2 1 1 [5],
        view_bytes = Inr [0, 0, 0, 0, 0, 0, 20, 64]\<rparr>, \<lparr>elems = Arr2 1 1 [5],
        view_bytes = Inr [0, 0, 0, 0, 0, 0, 20, 64]\<rparr>, \<lparr>elems = Arr2 1 1 [5],
        view_bytes = Inr [0, 0, 0, 0, 0, 0, 20, 64]\<rparr>] ! 1) \<and> (2::nat) \<noteq> 1"
  by (simp add: ParallelAlignment_init_def np_zeros3_def numpy_hash_def)

end
